theory Spec2Isabelle
  imports Complex_Main
begin

section \<open>The notebook and its numbers\<close>

text \<open>
  The notebook \<^verbatim>\<open>tansmon+LC+transmon.ipynb\<close> is glue code over the libraries
  \<^verbatim>\<open>scqubits\<close> and \<^verbatim>\<open>numpy\<close>. The model keeps what the notebook itself
  writes: the values it passes, the names it binds, the order of its calls. Python
  integers are integers, and a float literal is recorded as the decimal number written.

  What the notebook computes with floats (the Josephson energies of its callback, the grid
  of its sweep) is computed in float64 arithmetic: a value is a finite real number, an
  infinity or nan; an operation rounds its exact result to the nearest double, ties to
  even, and overflows to an infinity. The sign of a zero is not kept: nothing the notebook
  computes depends on it.
\<close>

datatype float64 = Finite real | PosInf | NegInf | NaN

text \<open>Rounding to the nearest integer, ties to the even one.\<close>

definition round_half_even :: "real \<Rightarrow> int" where
  "round_half_even q =
     (let f = \<lfloor>q\<rfloor> in
      if q - of_int f < 1 / 2 then f
      else if 1 / 2 < q - of_int f then f + 1
      else if even f then f else f + 1)"

text \<open>
  The doubles around \<open>x\<close> are the multiples of \<open>2\<close> to the power
  \<open>ulp_exponent x\<close>: 52 below the binary exponent of \<open>x\<close>, and no lower than
  \<open>-1074\<close> (the subnormal range).
\<close>

definition ulp_exponent :: "real \<Rightarrow> int" where
  "ulp_exponent x = max \<lfloor>log 2 \<bar>x\<bar>\<rfloor> (- 1022) - 52"

definition round64_finite :: "real \<Rightarrow> real" where
  "round64_finite x =
     (if x = 0 then 0
      else of_int (round_half_even (x / 2 powr of_int (ulp_exponent x)))
             * 2 powr of_int (ulp_exponent x))"

text \<open>
  A result at or beyond the midpoint between the largest double and \<open>2 ^ 1024\<close>
  rounds to an infinity.
\<close>

definition overflow_threshold :: real where
  "overflow_threshold = 2 ^ 1024 - 2 ^ 970"

definition round64 :: "real \<Rightarrow> float64" where
  "round64 x =
     (if overflow_threshold \<le> \<bar>x\<bar> then (if 0 < x then PosInf else NegInf)
      else Finite (round64_finite x))"

text \<open>The four operations and the absolute value, with their special cases.\<close>

fun fneg :: "float64 \<Rightarrow> float64" where
  "fneg (Finite a) = Finite (- a)"
| "fneg PosInf = NegInf"
| "fneg NegInf = PosInf"
| "fneg NaN = NaN"

fun fadd :: "float64 \<Rightarrow> float64 \<Rightarrow> float64" where
  "fadd NaN y = NaN"
| "fadd x NaN = NaN"
| "fadd (Finite a) (Finite b) = round64 (a + b)"
| "fadd PosInf NegInf = NaN"
| "fadd NegInf PosInf = NaN"
| "fadd PosInf y = PosInf"
| "fadd NegInf y = NegInf"
| "fadd x PosInf = PosInf"
| "fadd x NegInf = NegInf"

definition fsub :: "float64 \<Rightarrow> float64 \<Rightarrow> float64" where
  "fsub x y = fadd x (fneg y)"

fun fmul :: "float64 \<Rightarrow> float64 \<Rightarrow> float64" where
  "fmul NaN y = NaN"
| "fmul x NaN = NaN"
| "fmul (Finite a) (Finite b) = round64 (a * b)"
| "fmul (Finite a) y = (if a = 0 then NaN else if 0 < a then y else fneg y)"
| "fmul x (Finite b) = (if b = 0 then NaN else if 0 < b then x else fneg x)"
| "fmul PosInf y = y"
| "fmul NegInf y = fneg y"

fun fdiv :: "float64 \<Rightarrow> float64 \<Rightarrow> float64" where
  "fdiv NaN y = NaN"
| "fdiv x NaN = NaN"
| "fdiv (Finite a) (Finite b) =
     (if b = 0 then (if a = 0 then NaN else if 0 < a then PosInf else NegInf)
      else round64 (a / b))"
| "fdiv (Finite a) y = Finite 0"
| "fdiv x (Finite b) = (if 0 \<le> b then x else fneg x)"
| "fdiv x y = NaN"

fun fabs :: "float64 \<Rightarrow> float64" where
  "fabs (Finite a) = Finite \<bar>a\<bar>"
| "fabs PosInf = PosInf"
| "fabs NegInf = PosInf"
| "fabs NaN = NaN"

text \<open>\<^verbatim>\<open>np.pi\<close>: the double nearest to \<open>pi\<close>, \<^verbatim>\<open>0x1.921fb54442d18p+1\<close>.\<close>

definition np_pi :: float64 where
  "np_pi = Finite (884279719003555 / 281474976710656)"

section \<open>The objects the notebook works with\<close>

text \<open>
  A \<^verbatim>\<open>scq.Transmon\<close> is seen through the five attributes the notebook sets when it
  constructs one, a \<^verbatim>\<open>scq.Oscillator\<close> through its two. \<^verbatim>\<open>EJ\<close> is the one
  attribute the notebook computes, so it holds a float64.
\<close>

record transmon =
  EJ :: float64
  EC :: real
  ng :: real
  ncut :: int
  truncated_dim :: int

record oscillator =
  E_osc :: real
  osc_truncated_dim :: int

text \<open>
  The three subsystem objects. Each is created once (cell 2) and its name is never
  bound again, so an object is identified with the name that holds it.
\<close>

datatype subsys = Tmon1 | Tmon2 | Resonator

text \<open>
  Operators are kept symbolically: which method of which subsystem produced the matrix,
  and the sum of two matrices.
\<close>

datatype operator =
    N_operator subsys
  | Creation_operator subsys
  | Annihilation_operator subsys
  | Operator_sum operator operator

text \<open>
  An operand of \<^verbatim>\<open>add_interaction\<close> is either a pair (matrix, subsystem) or a
  bound method of a subsystem that the library calls later.
\<close>

datatype operand =
    Matrix_of operator subsys
  | Method_of operator

record interaction =
  ia_g :: real
  ia_op1 :: operand
  ia_op2 :: operand
  ia_add_hc :: bool

text \<open>
  A \<^verbatim>\<open>HilbertSpace\<close> object: where it came from (the GUI of
  \<^verbatim>\<open>HilbertSpace.create()\<close>, or the constructor applied to a list of subsystems) and
  the interaction terms registered on it so far.
\<close>

datatype hs_origin = Gui_widget | Subsystem_list "subsys list"

record hilbert_space =
  origin :: hs_origin
  interaction_list :: "interaction list"

text \<open>A Python \<^verbatim>\<open>str\<close> is the list of its Unicode code points.\<close>

type_synonym py_str = "nat list"

text \<open>The only function the notebook defines; a value of this type refers to it.\<close>

datatype callback = Update_hilbertspace

record parameter_sweep =
  paramvals_by_name :: "(py_str \<times> float64 list) list"
  evals_count :: int
  sweep_hilbertspace :: hilbert_space
  subsys_update_info :: "(py_str \<times> subsys list) list"
  sweep_update_hilbertspace :: callback

record explorer_widget =
  explorer_sweep :: parameter_sweep

section \<open>Effects, exceptions and the state of the kernel\<close>

text \<open>
  What the statements of the cells do that reaches outside the notebook's own names: the
  two imports, the calls into \<^verbatim>\<open>scqubits\<close> and \<^verbatim>\<open>numpy\<close> with the arguments
  passed, and the one call of the builtin \<^verbatim>\<open>print\<close>. (The numerical functions
  that the callback applies, \<^verbatim>\<open>np.cos\<close> and \<^verbatim>\<open>np.abs\<close>, are evaluated and
  not recorded: the callback runs inside a call of the library.)
\<close>

datatype effect =
    Import string
  | Transmon_call real real real int int
  | Oscillator_call real int
  | HilbertSpace_create_call
  | HilbertSpace_call "subsys list"
  | Print_call hilbert_space
  | N_operator_call subsys
  | Creation_operator_call subsys
  | Annihilation_operator_call subsys
  | Operator_add_call operator operator
  | Add_interaction_call hs_origin interaction
  | Linspace_call real real nat
  | ParameterSweep_call parameter_sweep
  | Explorer_call parameter_sweep

text \<open>
  An exception is either Python's \<^verbatim>\<open>NameError\<close> for a name that is not bound, or
  whatever the library raises (the type \<open>'e\<close>).
\<close>

datatype 'e exn = NameError string | Library_error 'e

text \<open>
  The global names of the kernel (\<open>None\<close>: not bound yet; for the two modules a flag),
  and the effects performed so far, oldest first.
\<close>

record state =
  np :: bool
  scq :: bool
  tmon1 :: "transmon option"
  tmon2 :: "transmon option"
  resonator :: "oscillator option"
  g :: "real option"
  hilbertspace :: "hilbert_space option"
  g1 :: "real option"
  operator1 :: "operator option"
  operator2 :: "operator option"
  g2 :: "real option"
  param_name :: "py_str option"
  param_vals :: "float64 list option"
  subsys_update_list :: "subsys list option"
  update_hilbertspace_fn :: "callback option"
  sweep :: "parameter_sweep option"
  explorer :: "explorer_widget option"
  effects :: "effect list"

section \<open>The libraries, as far as the notebook depends on them\<close>

text \<open>
  \<^verbatim>\<open>scqubits\<close> and \<^verbatim>\<open>numpy\<close> are not part of the notebook. A library is taken
  as a parameter that decides what the notebook cannot:
  \<^item> \<open>raises\<close>: whether a call raises, given the effects performed before it;
  \<^item> \<open>callback_args\<close>: the parameter values at which a call invokes the update
    callback before it returns (the recorded output of cell 6 shows the sweep running
    within the call of \<^verbatim>\<open>ParameterSweep\<close>);
  \<^item> \<open>cos64\<close>: the double that \<^verbatim>\<open>np.cos\<close> returns for a finite double.
\<close>

record 'e library =
  raises :: "effect list \<Rightarrow> effect \<Rightarrow> 'e option"
  callback_args :: "effect \<Rightarrow> float64 list"
  cos64 :: "real \<Rightarrow> real"

text \<open>\<^verbatim>\<open>np.cos\<close>: nan for an infinity and for nan.\<close>

fun np_cos :: "'e library \<Rightarrow> float64 \<Rightarrow> float64" where
  "np_cos L (Finite x) = Finite (cos64 L x)"
| "np_cos L y = NaN"

text \<open>\<^verbatim>\<open>np.abs\<close>\<close>

definition np_abs :: "float64 \<Rightarrow> float64" where
  "np_abs x = fabs x"

text \<open>
  The objects the constructors return, seen through their attributes: each attribute holds
  the argument passed for it.
\<close>

definition Transmon :: "real \<Rightarrow> real \<Rightarrow> real \<Rightarrow> int \<Rightarrow> int \<Rightarrow> transmon" where
  "Transmon ej ec n_g n_cut td =
     \<lparr>EJ = Finite ej, EC = ec, ng = n_g, ncut = n_cut, truncated_dim = td\<rparr>"

definition Oscillator :: "real \<Rightarrow> int \<Rightarrow> oscillator" where
  "Oscillator e_osc td = \<lparr>E_osc = e_osc, osc_truncated_dim = td\<rparr>"

text \<open>
  \<^verbatim>\<open>np.linspace(start, stop, num)\<close>, with the end point included, as numpy computes
  it in float64: the step is the quotient of \<open>stop - start\<close> by \<open>num - 1\<close>, the
  \<open>i\<close>-th sample is \<open>i\<close> times the step, plus \<open>start\<close>, and the last sample is
  set to \<open>stop\<close>. (When the step underflows to zero the samples are \<open>i / (num - 1)\<close>
  times the difference; with a single sample there is no step.)
\<close>

definition linspace :: "real \<Rightarrow> real \<Rightarrow> nat \<Rightarrow> float64 list" where
  "linspace start stop num =
     (let intervals = num - 1;
          y = map (\<lambda>i. Finite (real i)) [0..<num];
          delta = fsub (Finite stop) (Finite start);
          scaled =
            (if 0 < intervals then
               (let step = fdiv delta (Finite (real intervals)) in
                if step = Finite 0
                then map (\<lambda>v. fmul (fdiv v (Finite (real intervals))) delta) y
                else map (\<lambda>v. fmul v step) y)
             else map (\<lambda>v. fmul v delta) y);
          shifted = map (\<lambda>v. fadd v (Finite start)) scaled
      in if 1 < num then shifted[num - 1 := Finite stop] else shifted)"

section \<open>The callback \<^verbatim>\<open>update_hilbertspace\<close>\<close>

text \<open>
  \<^verbatim>\<open>
  def update_hilbertspace(param_val):
      tmon1.EJ = 30*np.abs(np.cos(np.pi * param_val))
      tmon2.EJ = 40*np.abs(np.cos(np.pi * param_val * 2))
  \<close>
  Each assignment evaluates its right-hand side first (which reads the name
  \<^verbatim>\<open>np\<close>), then looks up the object and stores the attribute. The products are
  float64 products, taken from left to right; the integers 30, 40 and 2 enter them as the
  doubles of the same value.
\<close>

definition update_hilbertspace :: "'e library \<Rightarrow> float64 \<Rightarrow> state \<Rightarrow> 'e exn + state" where
  "update_hilbertspace L param_val s =
     (if \<not> np s then Inl (NameError ''np'') else
      (case tmon1 s of
         None \<Rightarrow> Inl (NameError ''tmon1'')
       | Some t1 \<Rightarrow>
           (let s1 = s\<lparr>tmon1 := Some (t1\<lparr>EJ :=
                        fmul (Finite 30) (np_abs (np_cos L (fmul np_pi param_val)))\<rparr>)\<rparr> in
            (if \<not> np s1 then Inl (NameError ''np'') else
             (case tmon2 s1 of
                None \<Rightarrow> Inl (NameError ''tmon2'')
              | Some t2 \<Rightarrow>
                  Inr (s1\<lparr>tmon2 := Some (t2\<lparr>EJ :=
                         fmul (Finite 40)
                           (np_abs (np_cos L (fmul (fmul np_pi param_val) (Finite 2))))\<rparr>)\<rparr>))))))"

section \<open>Sequencing, name lookup and calls\<close>

text \<open>Python runs statements in order; an exception ends the run where it is raised.\<close>

definition and_then :: "'x + 'a \<Rightarrow> ('a \<Rightarrow> 'x + 'b) \<Rightarrow> 'x + 'b" where
  "and_then m f = (case m of Inl x \<Rightarrow> Inl x | Inr a \<Rightarrow> f a)"

text \<open>Reading a global name: \<^verbatim>\<open>NameError\<close> when it is not bound.\<close>

definition lookup :: "string \<Rightarrow> 'a option \<Rightarrow> 'e exn + 'a" where
  "lookup name v = (case v of None \<Rightarrow> Inl (NameError name) | Some x \<Rightarrow> Inr x)"

definition imported :: "string \<Rightarrow> bool \<Rightarrow> 'e exn + unit" where
  "imported name b = (if b then Inr () else Inl (NameError name))"

text \<open>
  A call (or import, or print): the library may raise, and then nothing is recorded;
  otherwise the effect joins the record.
\<close>

definition perform :: "'e library \<Rightarrow> effect \<Rightarrow> state \<Rightarrow> 'e exn + state" where
  "perform L c s =
     (case raises L (effects s) c of
        Some e \<Rightarrow> Inl (Library_error e)
      | None \<Rightarrow> Inr (s\<lparr>effects := effects s @ [c]\<rparr>))"

text \<open>The library calling back into the notebook's function, once for each value.\<close>

fun apply_callback :: "'e library \<Rightarrow> callback \<Rightarrow> float64 \<Rightarrow> state \<Rightarrow> 'e exn + state" where
  "apply_callback L Update_hilbertspace p s = update_hilbertspace L p s"

fun run_callbacks :: "'e library \<Rightarrow> callback \<Rightarrow> float64 list \<Rightarrow> state \<Rightarrow> 'e exn + state" where
  "run_callbacks L cb [] s = Inr s"
| "run_callbacks L cb (p # ps) s =
     and_then (apply_callback L cb p s) (run_callbacks L cb ps)"

section \<open>The statements of the notebook, cell by cell\<close>

type_synonym 'e stmt = "'e library \<Rightarrow> state \<Rightarrow> 'e exn + state"

subsection \<open>Cell 1\<close>

text \<open>\<^verbatim>\<open>import numpy as np\<close>\<close>

definition import_numpy :: "'e stmt" where
  "import_numpy L s =
     and_then (perform L (Import ''numpy'') s) (\<lambda>s'. Inr (s'\<lparr>np := True\<rparr>))"

text \<open>\<^verbatim>\<open>import scqubits as scq\<close>\<close>

definition import_scqubits :: "'e stmt" where
  "import_scqubits L s =
     and_then (perform L (Import ''scqubits'') s) (\<lambda>s'. Inr (s'\<lparr>scq := True\<rparr>))"

subsection \<open>Cell 2\<close>

text \<open>\<^verbatim>\<open>tmon1 = scq.Transmon(EJ=40.0, EC=0.2, ng=0.3, ncut=40, truncated_dim=4)\<close>\<close>

definition assign_tmon1 :: "'e stmt" where
  "assign_tmon1 L s =
     and_then (imported ''scq'' (scq s)) (\<lambda>_.
     and_then (perform L (Transmon_call 40.0 0.2 0.3 40 4) s) (\<lambda>s'.
     Inr (s'\<lparr>tmon1 := Some (Transmon 40.0 0.2 0.3 40 4)\<rparr>)))"

text \<open>\<^verbatim>\<open>tmon2 = scq.Transmon(EJ=15.0, EC=0.15, ng=0.0, ncut=30, truncated_dim=4)\<close>\<close>

definition assign_tmon2 :: "'e stmt" where
  "assign_tmon2 L s =
     and_then (imported ''scq'' (scq s)) (\<lambda>_.
     and_then (perform L (Transmon_call 15.0 0.15 0.0 30 4) s) (\<lambda>s'.
     Inr (s'\<lparr>tmon2 := Some (Transmon 15.0 0.15 0.0 30 4)\<rparr>)))"

text \<open>\<^verbatim>\<open>resonator = scq.Oscillator(E_osc=4.5, truncated_dim=4)\<close>\<close>

definition assign_resonator :: "'e stmt" where
  "assign_resonator L s =
     and_then (imported ''scq'' (scq s)) (\<lambda>_.
     and_then (perform L (Oscillator_call 4.5 4) s) (\<lambda>s'.
     Inr (s'\<lparr>resonator := Some (Oscillator 4.5 4)\<rparr>)))"

subsection \<open>Cell 3\<close>

text \<open>\<^verbatim>\<open>g = 0.1\<close>\<close>

definition assign_g :: "'e stmt" where
  "assign_g L s = Inr (s\<lparr>g := Some 0.1\<rparr>)"

text \<open>\<^verbatim>\<open>hilbertspace = scq.HilbertSpace.create()\<close>\<close>

definition assign_hilbertspace_create :: "'e stmt" where
  "assign_hilbertspace_create L s =
     and_then (imported ''scq'' (scq s)) (\<lambda>_.
     and_then (perform L HilbertSpace_create_call s) (\<lambda>s'.
     Inr (s'\<lparr>hilbertspace := Some \<lparr>origin = Gui_widget, interaction_list = []\<rparr>\<rparr>)))"

subsection \<open>Cell 4\<close>

text \<open>\<^verbatim>\<open>hilbertspace = scq.HilbertSpace([tmon1, tmon2, resonator])\<close>\<close>

definition assign_hilbertspace :: "'e stmt" where
  "assign_hilbertspace L s =
     and_then (imported ''scq'' (scq s)) (\<lambda>_.
     and_then (lookup ''tmon1'' (tmon1 s)) (\<lambda>_.
     and_then (lookup ''tmon2'' (tmon2 s)) (\<lambda>_.
     and_then (lookup ''resonator'' (resonator s)) (\<lambda>_.
     and_then (perform L (HilbertSpace_call [Tmon1, Tmon2, Resonator]) s) (\<lambda>s'.
     Inr (s'\<lparr>hilbertspace :=
               Some \<lparr>origin = Subsystem_list [Tmon1, Tmon2, Resonator],
                     interaction_list = []\<rparr>\<rparr>))))))"

text \<open>\<^verbatim>\<open>print(hilbertspace)\<close>\<close>

definition print_hilbertspace :: "'e stmt" where
  "print_hilbertspace L s =
     and_then (lookup ''hilbertspace'' (hilbertspace s)) (\<lambda>hs.
     perform L (Print_call hs) s)"

subsection \<open>Cell 5\<close>

text \<open>\<^verbatim>\<open>g1 = 0.1\<close>\<close>

definition assign_g1 :: "'e stmt" where
  "assign_g1 L s = Inr (s\<lparr>g1 := Some 0.1\<rparr>)"

text \<open>\<^verbatim>\<open>operator1 = tmon1.n_operator()\<close>\<close>

definition assign_operator1 :: "'e stmt" where
  "assign_operator1 L s =
     and_then (lookup ''tmon1'' (tmon1 s)) (\<lambda>_.
     and_then (perform L (N_operator_call Tmon1) s) (\<lambda>s'.
     Inr (s'\<lparr>operator1 := Some (N_operator Tmon1)\<rparr>)))"

text \<open>
  \<^verbatim>\<open>operator2 = resonator.creation_operator() + resonator.annihilation_operator()\<close>
\<close>

definition assign_operator2 :: "'e stmt" where
  "assign_operator2 L s =
     and_then (lookup ''resonator'' (resonator s)) (\<lambda>_.
     and_then (perform L (Creation_operator_call Resonator) s) (\<lambda>s1.
     and_then (lookup ''resonator'' (resonator s1)) (\<lambda>_.
     and_then (perform L (Annihilation_operator_call Resonator) s1) (\<lambda>s2.
     and_then (perform L (Operator_add_call (Creation_operator Resonator)
                            (Annihilation_operator Resonator)) s2) (\<lambda>s3.
     Inr (s3\<lparr>operator2 := Some (Operator_sum (Creation_operator Resonator)
                                    (Annihilation_operator Resonator))\<rparr>))))))"

text \<open>
  \<^verbatim>\<open>hilbertspace.add_interaction(g=g1, op1=(operator1, tmon1), op2=(operator2, resonator))\<close>
  (\<^verbatim>\<open>add_hc\<close> is left at its default, \<^verbatim>\<open>False\<close>.)
\<close>

definition add_interaction1 :: "'e stmt" where
  "add_interaction1 L s =
     and_then (lookup ''hilbertspace'' (hilbertspace s)) (\<lambda>hs.
     and_then (lookup ''g1'' (g1 s)) (\<lambda>gv.
     and_then (lookup ''operator1'' (operator1 s)) (\<lambda>o1.
     and_then (lookup ''tmon1'' (tmon1 s)) (\<lambda>_.
     and_then (lookup ''operator2'' (operator2 s)) (\<lambda>o2.
     and_then (lookup ''resonator'' (resonator s)) (\<lambda>_.
     (let i = \<lparr>ia_g = gv, ia_op1 = Matrix_of o1 Tmon1,
                ia_op2 = Matrix_of o2 Resonator, ia_add_hc = False\<rparr> in
      and_then (perform L (Add_interaction_call (origin hs) i) s) (\<lambda>s'.
      Inr (s'\<lparr>hilbertspace :=
                Some (hs\<lparr>interaction_list := interaction_list hs @ [i]\<rparr>)\<rparr>)))))))))"

text \<open>\<^verbatim>\<open>g2 = 0.2\<close>\<close>

definition assign_g2 :: "'e stmt" where
  "assign_g2 L s = Inr (s\<lparr>g2 := Some 0.2\<rparr>)"

text \<open>
  \<^verbatim>\<open>hilbertspace.add_interaction(g=g2, op1=tmon2.n_operator,
      op2=resonator.creation_operator, add_hc=True)\<close>
\<close>

definition add_interaction2 :: "'e stmt" where
  "add_interaction2 L s =
     and_then (lookup ''hilbertspace'' (hilbertspace s)) (\<lambda>hs.
     and_then (lookup ''g2'' (g2 s)) (\<lambda>gv.
     and_then (lookup ''tmon2'' (tmon2 s)) (\<lambda>_.
     and_then (lookup ''resonator'' (resonator s)) (\<lambda>_.
     (let i = \<lparr>ia_g = gv, ia_op1 = Method_of (N_operator Tmon2),
                ia_op2 = Method_of (Creation_operator Resonator), ia_add_hc = True\<rparr> in
      and_then (perform L (Add_interaction_call (origin hs) i) s) (\<lambda>s'.
      Inr (s'\<lparr>hilbertspace :=
                Some (hs\<lparr>interaction_list := interaction_list hs @ [i]\<rparr>)\<rparr>)))))))"

subsection \<open>Cell 6\<close>

text \<open>
  \<^verbatim>\<open>param_name = "..."\<close>: the seven code points U+03A6, e, x, t, /, U+03A6, 0
  (capital phi, \<^verbatim>\<open>ext/\<close>, capital phi, zero).
\<close>

definition assign_param_name :: "'e stmt" where
  "assign_param_name L s = Inr (s\<lparr>param_name := Some [934, 101, 120, 116, 47, 934, 48]\<rparr>)"

text \<open>\<^verbatim>\<open>param_vals = np.linspace(0.0, 1.0, 151)\<close>\<close>

definition assign_param_vals :: "'e stmt" where
  "assign_param_vals L s =
     and_then (imported ''np'' (np s)) (\<lambda>_.
     and_then (perform L (Linspace_call 0.0 1.0 151) s) (\<lambda>s'.
     Inr (s'\<lparr>param_vals := Some (linspace 0.0 1.0 151)\<rparr>)))"

text \<open>\<^verbatim>\<open>subsys_update_list = [tmon1, tmon2]\<close>\<close>

definition assign_subsys_update_list :: "'e stmt" where
  "assign_subsys_update_list L s =
     and_then (lookup ''tmon1'' (tmon1 s)) (\<lambda>_.
     and_then (lookup ''tmon2'' (tmon2 s)) (\<lambda>_.
     Inr (s\<lparr>subsys_update_list := Some [Tmon1, Tmon2]\<rparr>)))"

text \<open>\<^verbatim>\<open>def update_hilbertspace(param_val): ...\<close> binds the name to the function.\<close>

definition def_update_hilbertspace :: "'e stmt" where
  "def_update_hilbertspace L s = Inr (s\<lparr>update_hilbertspace_fn := Some Update_hilbertspace\<rparr>)"

text \<open>
  \<^verbatim>\<open>sweep = scq.ParameterSweep(paramvals_by_name={param_name: param_vals},
      evals_count=15, hilbertspace=hilbertspace,
      subsys_update_info={param_name: [tmon1, tmon2]},
      update_hilbertspace=update_hilbertspace)\<close>
\<close>

definition assign_sweep :: "'e stmt" where
  "assign_sweep L s =
     and_then (imported ''scq'' (scq s)) (\<lambda>_.
     and_then (lookup ''param_name'' (param_name s)) (\<lambda>n1.
     and_then (lookup ''param_vals'' (param_vals s)) (\<lambda>vs.
     and_then (lookup ''hilbertspace'' (hilbertspace s)) (\<lambda>hs.
     and_then (lookup ''param_name'' (param_name s)) (\<lambda>n2.
     and_then (lookup ''tmon1'' (tmon1 s)) (\<lambda>_.
     and_then (lookup ''tmon2'' (tmon2 s)) (\<lambda>_.
     and_then (lookup ''update_hilbertspace'' (update_hilbertspace_fn s)) (\<lambda>cb.
     (let sw = \<lparr>paramvals_by_name = [(n1, vs)], evals_count = 15,
                 sweep_hilbertspace = hs, subsys_update_info = [(n2, [Tmon1, Tmon2])],
                 sweep_update_hilbertspace = cb\<rparr> in
      and_then (perform L (ParameterSweep_call sw) s) (\<lambda>s1.
      and_then (run_callbacks L cb (callback_args L (ParameterSweep_call sw)) s1) (\<lambda>s2.
      Inr (s2\<lparr>sweep := Some sw\<rparr>))))))))))))"

subsection \<open>Cell 7\<close>

text \<open>\<^verbatim>\<open>explorer = scq.Explorer(sweep=sweep)\<close>\<close>

definition assign_explorer :: "'e stmt" where
  "assign_explorer L s =
     and_then (imported ''scq'' (scq s)) (\<lambda>_.
     and_then (lookup ''sweep'' (sweep s)) (\<lambda>sw.
     and_then (perform L (Explorer_call sw) s) (\<lambda>s1.
     and_then (run_callbacks L (sweep_update_hilbertspace sw)
                 (callback_args L (Explorer_call sw)) s1) (\<lambda>s2.
     Inr (s2\<lparr>explorer := Some \<lparr>explorer_sweep = sw\<rparr>\<rparr>)))))"

subsection \<open>The cells and the run from top to bottom\<close>

definition cell1 :: "'e stmt list" where
  "cell1 = [import_numpy, import_scqubits]"

definition cell2 :: "'e stmt list" where
  "cell2 = [assign_tmon1, assign_tmon2, assign_resonator]"

definition cell3 :: "'e stmt list" where
  "cell3 = [assign_g, assign_hilbertspace_create]"

definition cell4 :: "'e stmt list" where
  "cell4 = [assign_hilbertspace, print_hilbertspace]"

definition cell5 :: "'e stmt list" where
  "cell5 = [assign_g1, assign_operator1, assign_operator2, add_interaction1,
            assign_g2, add_interaction2]"

definition cell6 :: "'e stmt list" where
  "cell6 = [assign_param_name, assign_param_vals, assign_subsys_update_list,
            def_update_hilbertspace, assign_sweep]"

definition cell7 :: "'e stmt list" where
  "cell7 = [assign_explorer]"

text \<open>The last two cells of the notebook are empty.\<close>

definition cell8 :: "'e stmt list" where
  "cell8 = []"

definition cell9 :: "'e stmt list" where
  "cell9 = []"

definition notebook :: "'e stmt list list" where
  "notebook = [cell1, cell2, cell3, cell4, cell5, cell6, cell7, cell8, cell9]"

fun run_cell :: "'e library \<Rightarrow> 'e stmt list \<Rightarrow> state \<Rightarrow> 'e exn + state" where
  "run_cell L [] s = Inr s"
| "run_cell L (st # sts) s = and_then (st L s) (run_cell L sts)"

fun run_cells :: "'e library \<Rightarrow> 'e stmt list list \<Rightarrow> state \<Rightarrow> 'e exn + state" where
  "run_cells L [] s = Inr s"
| "run_cells L (c # cs) s = and_then (run_cell L c s) (run_cells L cs)"

text \<open>A fresh kernel: no name bound, nothing done yet.\<close>

definition initial_state :: state where
  "initial_state =
     \<lparr>np = False, scq = False, tmon1 = None, tmon2 = None, resonator = None, g = None,
      hilbertspace = None, g1 = None, operator1 = None, operator2 = None, g2 = None,
      param_name = None, param_vals = None, subsys_update_list = None,
      update_hilbertspace_fn = None, sweep = None, explorer = None, effects = []\<rparr>"

definition run_notebook :: "'e library \<Rightarrow> 'e exn + state" where
  "run_notebook L = run_cells L notebook initial_state"

section \<open>Vocabulary of the specification\<close>

text \<open>
  The values a complete run builds: the two interaction terms of cell 5, the
  \<^verbatim>\<open>HilbertSpace\<close> of cell 4 once both are registered, the name of the swept
  parameter and the \<^verbatim>\<open>ParameterSweep\<close> of cell 6.
\<close>

definition first_interaction :: interaction where
  "first_interaction =
     \<lparr>ia_g = 0.1, ia_op1 = Matrix_of (N_operator Tmon1) Tmon1,
      ia_op2 = Matrix_of (Operator_sum (Creation_operator Resonator)
                            (Annihilation_operator Resonator)) Resonator,
      ia_add_hc = False\<rparr>"

definition second_interaction :: interaction where
  "second_interaction =
     \<lparr>ia_g = 0.2, ia_op1 = Method_of (N_operator Tmon2),
      ia_op2 = Method_of (Creation_operator Resonator), ia_add_hc = True\<rparr>"

definition coupled_space :: hilbert_space where
  "coupled_space =
     \<lparr>origin = Subsystem_list [Tmon1, Tmon2, Resonator],
      interaction_list = [first_interaction, second_interaction]\<rparr>"

definition flux_name :: py_str where
  "flux_name = [934, 101, 120, 116, 47, 934, 48]"

definition configured_sweep :: parameter_sweep where
  "configured_sweep =
     \<lparr>paramvals_by_name = [(flux_name, linspace 0.0 1.0 151)],
      evals_count = 15,
      sweep_hilbertspace = coupled_space,
      subsys_update_info = [(flux_name, [Tmon1, Tmon2])],
      sweep_update_hilbertspace = Update_hilbertspace\<rparr>"

text \<open>
  The effects of a complete run, in the order of the source: cell 1 (two imports), cell 2
  (three constructors), cell 3 (the GUI creation), cell 4 (the programmatic creation and
  the print), cell 5 (three operator calls, their sum, two registrations), cell 6 (the
  grid, the sweep), cell 7 (the explorer).
\<close>

definition notebook_effects :: "effect list" where
  "notebook_effects =
     [Import ''numpy'',
      Import ''scqubits'',
      Transmon_call 40.0 0.2 0.3 40 4,
      Transmon_call 15.0 0.15 0.0 30 4,
      Oscillator_call 4.5 4,
      HilbertSpace_create_call,
      HilbertSpace_call [Tmon1, Tmon2, Resonator],
      Print_call \<lparr>origin = Subsystem_list [Tmon1, Tmon2, Resonator], interaction_list = []\<rparr>,
      N_operator_call Tmon1,
      Creation_operator_call Resonator,
      Annihilation_operator_call Resonator,
      Operator_add_call (Creation_operator Resonator) (Annihilation_operator Resonator),
      Add_interaction_call (Subsystem_list [Tmon1, Tmon2, Resonator]) first_interaction,
      Add_interaction_call (Subsystem_list [Tmon1, Tmon2, Resonator]) second_interaction,
      Linspace_call 0.0 1.0 151,
      ParameterSweep_call configured_sweep,
      Explorer_call configured_sweep]"

text \<open>
  The first exception a library raises along a sequence of calls, each call seeing the
  effects before it; \<open>None\<close> when no call raises.
\<close>

fun first_raise :: "'e library \<Rightarrow> effect list \<Rightarrow> effect list \<Rightarrow> 'e option" where
  "first_raise L h [] = None"
| "first_raise L h (c # cs) =
     (case raises L h c of Some e \<Rightarrow> Some e | None \<Rightarrow> first_raise L (h @ [c]) cs)"

text \<open>
  A library under which no call raises and no call calls back, with the real cosine for
  \<^verbatim>\<open>np.cos\<close>.
\<close>

definition quiet :: "'e library" where
  "quiet = \<lparr>raises = (\<lambda>h c. None), callback_args = (\<lambda>c. []), cos64 = cos\<rparr>"

text \<open>The effects of a run that completed (none are kept for a run that raised).\<close>

definition effects_of :: "'e exn + state \<Rightarrow> effect list" where
  "effects_of r = (case r of Inl x \<Rightarrow> [] | Inr s \<Rightarrow> effects s)"

text \<open>
  The five steps of the specification's sequence, and the step a call carries out. Imports,
  the print and the calls that only prepare an argument (operator matrices, their sum, the
  grid) carry out none.
\<close>

datatype step = Instantiate | Assemble | Register | Sweep | Explore

fun step_of :: "effect \<Rightarrow> step option" where
  "step_of (Transmon_call ej ec n_g n_cut td) = Some Instantiate"
| "step_of (Oscillator_call e_osc td) = Some Instantiate"
| "step_of HilbertSpace_create_call = Some Assemble"
| "step_of (HilbertSpace_call xs) = Some Assemble"
| "step_of (Add_interaction_call hs i) = Some Register"
| "step_of (ParameterSweep_call sw) = Some Sweep"
| "step_of (Explorer_call sw) = Some Explore"
| "step_of c = None"

definition calls_of_step :: "step \<Rightarrow> effect list \<Rightarrow> effect list" where
  "calls_of_step st cs = filter (\<lambda>c. step_of c = Some st) cs"

definition step_calls :: "effect list \<Rightarrow> effect list" where
  "step_calls cs = filter (\<lambda>c. step_of c \<noteq> None) cs"

text \<open>
  What an effect is: the import of a module, a call into the interface of
  \<^verbatim>\<open>scqubits\<close> or \<^verbatim>\<open>numpy\<close>, or a call of a Python builtin (\<^verbatim>\<open>print\<close>
  writes to standard output).
\<close>

datatype effect_kind = Module_import | Library_call | Builtin_output

fun kind_of :: "effect \<Rightarrow> effect_kind" where
  "kind_of (Import m) = Module_import"
| "kind_of (Print_call hs) = Builtin_output"
| "kind_of c = Library_call"

text \<open>
  The subsystem an operand acts on (for a bound method, the object it is bound to), and
  whether an operand is a charge operator.
\<close>

fun method_self :: "operator \<Rightarrow> subsys option" where
  "method_self (N_operator x) = Some x"
| "method_self (Creation_operator x) = Some x"
| "method_self (Annihilation_operator x) = Some x"
| "method_self (Operator_sum a b) = None"

fun operand_subsys :: "operand \<Rightarrow> subsys option" where
  "operand_subsys (Matrix_of m x) = Some x"
| "operand_subsys (Method_of m) = method_self m"

fun operand_operator :: "operand \<Rightarrow> operator" where
  "operand_operator (Matrix_of m x) = m"
| "operand_operator (Method_of m) = m"

definition couples_charge_to_resonator :: "interaction \<Rightarrow> bool" where
  "couples_charge_to_resonator i =
     ((operand_operator (ia_op1 i) = N_operator Tmon1 \<and> operand_subsys (ia_op1 i) = Some Tmon1
       \<or> operand_operator (ia_op1 i) = N_operator Tmon2 \<and> operand_subsys (ia_op1 i) = Some Tmon2)
      \<and> operand_subsys (ia_op2 i) = Some Resonator)"

text \<open>
  A float64 within a closed range of reals (nan and the infinities are in none), and a
  float64 below zero.
\<close>

definition in_range :: "real \<Rightarrow> real \<Rightarrow> float64 \<Rightarrow> bool" where
  "in_range lo hi v = (case v of Finite r \<Rightarrow> lo \<le> r \<and> r \<le> hi | _ \<Rightarrow> False)"

definition negative :: "float64 \<Rightarrow> bool" where
  "negative v = (case v of Finite r \<Rightarrow> r < 0 | NegInf \<Rightarrow> True | _ \<Rightarrow> False)"

text \<open>
  The double that the literal \<^verbatim>\<open>1e308\<close> denotes, \<^verbatim>\<open>0x1.1ccf385ebc8a0p+1023\<close>.
\<close>

definition double_1e308 :: real where
  "double_1e308 = 5010420900022432 * 2 ^ 971"

section \<open>Rounding to float64\<close>

text \<open>The binary exponent of a number between two consecutive powers of two.\<close>

lemma floor_log2_eq:
  fixes x :: real
  assumes "2 powr of_int k \<le> x" and "x < 2 powr of_int (k + 1)"
  shows "\<lfloor>log 2 x\<rfloor> = k"
proof -
  have "(0::real) < 2 powr of_int k"
    by simp
  then have pos: "0 < x"
    using assms(1) by linarith
  have lo: "of_int k \<le> log 2 x"
    using assms(1) pos by (simp add: le_log_iff)
  have hi: "log 2 x < of_int (k + 1)"
    using assms(2) pos by (simp add: log_less_iff)
  show ?thesis
    using lo hi by (simp add: floor_eq_iff)
qed

lemma floor_log2_le:
  fixes x :: real
  assumes "0 < x" and "x < 2 powr of_int (k + 1)"
  shows "\<lfloor>log 2 x\<rfloor> \<le> k"
proof -
  have "log 2 x < of_int k + 1"
    using assms by (simp add: log_less_iff)
  then show ?thesis
    by (simp add: floor_le_iff)
qed

lemma round_half_even_error: "\<bar>of_int (round_half_even q) - q\<bar> \<le> 1 / 2"
proof -
  have "of_int \<lfloor>q\<rfloor> \<le> q"
    by simp
  moreover have "q < of_int \<lfloor>q\<rfloor> + 1"
    by linarith
  ultimately
  show ?thesis
    by (auto simp add: round_half_even_def Let_def)
qed

lemma round_half_even_le:
  assumes "q \<le> of_int n"
  shows "round_half_even q \<le> n"
proof -
  have f: "\<lfloor>q\<rfloor> \<le> n"
    using assms by (simp add: floor_le_iff)
  show ?thesis
  proof (cases "\<lfloor>q\<rfloor> = n")
    case True
    then have "q - of_int \<lfloor>q\<rfloor> \<le> 0"
      using assms by simp
    then show ?thesis
      using True by (simp add: round_half_even_def Let_def)
  next
    case False
    with f have "\<lfloor>q\<rfloor> + 1 \<le> n"
      by simp
    then show ?thesis
      by (auto simp add: round_half_even_def Let_def)
  qed
qed

lemma round_half_even_nonneg:
  assumes "0 \<le> q"
  shows "0 \<le> round_half_even q"
proof -
  have "0 \<le> \<lfloor>q\<rfloor>"
    using assms by simp
  then show ?thesis
    by (auto simp add: round_half_even_def Let_def)
qed

lemma round64_finite_error:
  "\<bar>round64_finite x - x\<bar> \<le> 2 powr of_int (ulp_exponent x) / 2"
proof (cases "x = 0")
  case True
  then show ?thesis
    by (simp add: round64_finite_def)
next
  case False
  define u :: real where "u = 2 powr of_int (ulp_exponent x)"
  have u: "0 < u"
    by (simp add: u_def)
  have "round64_finite x - x = (of_int (round_half_even (x / u)) - x / u) * u"
    using False u by (simp add: round64_finite_def u_def algebra_simps)
  then have "\<bar>round64_finite x - x\<bar> = \<bar>of_int (round_half_even (x / u)) - x / u\<bar> * u"
    using u by (simp add: abs_mult)
  also have "\<dots> \<le> 1 / 2 * u"
    using u round_half_even_error [of "x / u"] by (intro mult_right_mono) simp_all
  finally show ?thesis
    by (simp add: u_def)
qed

lemma ulp_exponent_le:
  assumes "x \<noteq> 0" and "\<bar>x\<bar> < 2 powr of_int (k + 1)" and "- 1022 \<le> k"
  shows "ulp_exponent x \<le> k - 52"
proof -
  have "\<lfloor>log 2 \<bar>x\<bar>\<rfloor> \<le> k"
    using assms(1,2) by (intro floor_log2_le) simp_all
  then show ?thesis
    using assms(3) by (simp add: ulp_exponent_def)
qed

lemma ulp_exponent_eq:
  assumes "2 powr of_int k \<le> \<bar>x\<bar>" and "\<bar>x\<bar> < 2 powr of_int (k + 1)" and "- 1022 \<le> k"
  shows "ulp_exponent x = k - 52"
  using floor_log2_eq [OF assms(1,2)] assms(3) by (simp add: ulp_exponent_def)

lemma ulp_exponent_ge: "- 1074 \<le> ulp_exponent x"
  by (simp add: ulp_exponent_def)

lemma round64_finite_nonneg:
  assumes "0 \<le> x"
  shows "0 \<le> round64_finite x"
proof (cases "x = 0")
  case True
  then show ?thesis
    by (simp add: round64_finite_def)
next
  case False
  define u :: real where "u = 2 powr of_int (ulp_exponent x)"
  have u: "0 < u"
    by (simp add: u_def)
  have "0 \<le> x / u"
    using assms u by simp
  then have "0 \<le> round_half_even (x / u)"
    by (rule round_half_even_nonneg)
  then show ?thesis
    using False u by (simp add: round64_finite_def u_def)
qed

lemma round64_finite_range:
  assumes "0 \<le> x" and "x \<le> of_int c" and "c < 2 ^ 53"
  shows "0 \<le> round64_finite x \<and> round64_finite x \<le> of_int c"
proof (cases "x = 0")
  case True
  then show ?thesis
    using assms by (simp add: round64_finite_def)
next
  case False
  define k where "k = ulp_exponent x"
  define u :: real where "u = 2 powr of_int k"
  have u: "0 < u"
    by (simp add: u_def)
  have "\<bar>x\<bar> < 2 powr of_int (52 + 1)"
  proof -
    have "x < 2 ^ 53"
      using assms(2,3) by (metis le_less_trans of_int_less_numeral_power_cancel_iff)
    then show ?thesis
      using assms(1) by (simp add: powr_realpow)
  qed
  with False have "ulp_exponent x \<le> 52 - 52"
    by (intro ulp_exponent_le) simp_all
  then have k: "k \<le> 0"
    by (simp add: k_def)
  have inv: "1 / u = of_int (2 ^ nat (- k))"
  proof -
    have "1 / u = (2::real) powr of_int (- k)"
      by (simp add: u_def powr_minus divide_inverse)
    also have "\<dots> = 2 powr real (nat (- k))"
      using k by simp
    also have "\<dots> = 2 ^ nat (- k)"
      by (simp add: powr_realpow)
    finally show ?thesis
      by simp
  qed
  have "x / u \<le> of_int c / u"
    using assms(2) u by (simp add: divide_right_mono)
  also have "of_int c / u = of_int (c * 2 ^ nat (- k))"
    using inv by (simp add: divide_inverse)
  finally have "round_half_even (x / u) \<le> c * 2 ^ nat (- k)"
    by (rule round_half_even_le)
  then have "(of_int (round_half_even (x / u)) :: real) \<le> of_int (c * 2 ^ nat (- k))"
    by (rule of_int_le_iff [THEN iffD2])
  then have "of_int (round_half_even (x / u)) * u \<le> of_int (c * 2 ^ nat (- k)) * u"
    using u by (intro mult_right_mono) simp_all
  also have "of_int (c * 2 ^ nat (- k)) * u = of_int c * ((1 / u) * u)"
    using inv by simp
  also have "\<dots> = of_int c"
    using u by simp
  finally have hi: "round64_finite x \<le> of_int c"
    using False by (simp add: round64_finite_def u_def k_def)
  show ?thesis
    using round64_finite_nonneg [OF assms(1)] hi by simp
qed

lemma round64_finite_dyadic: "\<exists>m :: int. round64_finite x * 2 ^ 1074 = of_int m"
proof (cases "x = 0")
  case True
  then show ?thesis
    by (simp add: round64_finite_def)
next
  case False
  define k where "k = ulp_exponent x"
  have k: "0 \<le> k + 1074"
    using ulp_exponent_ge [of x] by (simp add: k_def)
  have "(2::real) ^ 1074 = 2 powr of_int 1074"
    by (simp add: powr_realpow [symmetric])
  then have "(2::real) powr of_int k * 2 ^ 1074 = 2 powr of_int (k + 1074)"
    by (simp add: powr_add)
  also have "\<dots> = 2 powr real (nat (k + 1074))"
    using k by simp
  also have "\<dots> = of_int (2 ^ nat (k + 1074))"
    by (simp add: powr_realpow)
  finally have p: "(2::real) powr of_int k * 2 ^ 1074 = of_int (2 ^ nat (k + 1074))" .
  have "round64_finite x * 2 ^ 1074 =
      of_int (round_half_even (x / 2 powr of_int k)) * (2 powr of_int k * 2 ^ 1074)"
    using False by (simp add: round64_finite_def k_def)
  also have "\<dots> = of_int (round_half_even (x / 2 powr of_int k) * 2 ^ nat (k + 1074))"
    unfolding p by simp
  finally show ?thesis
    by blast
qed

text \<open>Below the overflow threshold a result is finite.\<close>

lemma round64_Finite:
  assumes "\<bar>x\<bar> < overflow_threshold"
  shows "round64 x = Finite (round64_finite x)"
  using assms by (simp add: round64_def)

lemma below_overflow_threshold:
  assumes "\<bar>x\<bar> \<le> 1024"
  shows "\<bar>x\<bar> < overflow_threshold"
proof -
  have "(1024 :: real) < overflow_threshold"
    by (simp add: overflow_threshold_def)
  with assms show ?thesis
    by linarith
qed

text \<open>Rounding where the binary exponent is known.\<close>

lemma round64_finite_in_binade:
  assumes "2 powr of_int k \<le> \<bar>x\<bar>" and "\<bar>x\<bar> < 2 powr of_int (k + 1)" and "- 1022 \<le> k"
  shows "round64_finite x =
           of_int (round_half_even (x / 2 powr of_int (k - 52))) * 2 powr of_int (k - 52)"
proof -
  have "(0::real) < 2 powr of_int k"
    by simp
  with assms(1) have "x \<noteq> 0"
    by auto
  then show ?thesis
    by (simp add: round64_finite_def ulp_exponent_eq [OF assms])
qed

lemma round64_finite_one: "round64_finite 1 = 1"
proof -
  have "round64_finite 1 =
      of_int (round_half_even (1 / 2 powr of_int (0 - 52))) * 2 powr of_int (0 - 52)"
    by (rule round64_finite_in_binade) simp_all
  also have "(2::real) powr of_int (0 - 52) = 1 / 2 ^ 52"
    by (simp add: powr_minus_divide powr_realpow [symmetric])
  also have "round_half_even (1 / (1 / 2 ^ 52)) = 2 ^ 52"
    by (simp add: round_half_even_def)
  finally show ?thesis
    by simp
qed

text \<open>The double nearest to 1/150, \<^verbatim>\<open>0x1.b4e81b4e81b4fp-8\<close>.\<close>

lemma round64_finite_step: "round64_finite (1 / 150) = 7686143364045647 / 2 ^ 60"
proof -
  have u: "(2::real) powr of_int (- 8 - 52) = 1 / 2 ^ 60"
    by (simp add: powr_minus_divide powr_realpow [symmetric])
  have lo: "(2::real) powr of_int (- 8) = 1 / 2 ^ 8"
    by (simp add: powr_minus_divide powr_realpow [symmetric])
  have hi: "(2::real) powr of_int (- 8 + 1) = 1 / 2 ^ 7"
    by (simp add: powr_minus_divide powr_realpow [symmetric])
  have "round64_finite (1 / 150) =
      of_int (round_half_even ((1 / 150) / 2 powr of_int (- 8 - 52))) * 2 powr of_int (- 8 - 52)"
    by (rule round64_finite_in_binade) (simp_all only: lo hi, simp_all)
  also have "round_half_even ((1 / 150) / (2::real) powr of_int (- 8 - 52)) = 7686143364045647"
    unfolding u by (simp add: round_half_even_def)
  finally show ?thesis
    unfolding u by simp
qed

lemma round64_finite_error_small:
  assumes "\<bar>x\<bar> < 2"
  shows "\<bar>round64_finite x - x\<bar> \<le> 1 / 2 ^ 53"
proof (cases "x = 0")
  case True
  then show ?thesis
    by (simp add: round64_finite_def)
next
  case False
  have "ulp_exponent x \<le> 0 - 52"
    using False assms by (intro ulp_exponent_le) simp_all
  then have "(2::real) powr of_int (ulp_exponent x) \<le> 2 powr of_int (- 52)"
    by simp
  also have "\<dots> = 1 / 2 ^ 52"
    by (simp add: powr_minus_divide powr_realpow [symmetric])
  finally have "(2::real) powr of_int (ulp_exponent x) / 2 \<le> 1 / 2 ^ 53"
    by simp
  with round64_finite_error [of x] show ?thesis
    by linarith
qed

text \<open>No two doubles are exactly 1/150 apart: 150 does not divide a power of two.\<close>

lemma three_not_dvd_power_of_two: "\<not> (3 :: int) dvd 2 ^ k"
proof
  assume d: "(3 :: int) dvd 2 ^ k"
  have "coprime ((2 :: int) + 1) 2"
    by (rule coprime_add_one_left)
  then have "coprime (3 :: int) 2"
    by simp
  then have c: "coprime (3 :: int) (2 ^ k)"
    by simp
  have "is_unit (3 :: int)"
    using c dvd_refl d by (rule coprime_common_divisor)
  then show False
    by simp
qed

lemma doubles_not_150th_apart:
  fixes a b :: real
  assumes "a * 2 ^ 1074 = of_int m" and "b * 2 ^ 1074 = of_int n"
  shows "b - a \<noteq> 1 / 150"
proof
  assume h: "b - a = 1 / 150"
  define P :: int where "P = 2 ^ 1074"
  have aP: "a * of_int P = of_int m"
    unfolding P_def of_int_power of_int_numeral by (rule assms(1))
  have bP: "b * of_int P = of_int n"
    unfolding P_def of_int_power of_int_numeral by (rule assms(2))
  have "(b * of_int P - a * of_int P) * 150 = (b - a) * 150 * of_int P"
    by (simp add: algebra_simps)
  also have "\<dots> = of_int P"
    using h by simp
  finally have "(of_int ((n - m) * 150) :: real) = of_int P"
    using aP bP by simp
  then have "(n - m) * 150 = P"
    by (simp only: of_int_eq_iff)
  then have "P = 3 * ((n - m) * 50)"
    by simp
  then have "3 dvd P"
    by (rule dvdI)
  then have "3 dvd (2 :: int) ^ 1074"
    unfolding P_def .
  then show False
    by (rule three_not_dvd_power_of_two [THEN notE])
qed

section \<open>The Josephson energies the callback computes\<close>

text \<open>Thirty (or forty) times an absolute value is never below zero.\<close>

lemma scaled_abs_not_negative:
  assumes "0 < c"
  shows "\<not> negative (fmul (Finite c) (np_abs v))"
proof (cases v)
  case (Finite a)
  have nn: "0 \<le> c * \<bar>a\<bar>"
    using assms by simp
  show ?thesis
  proof (cases "overflow_threshold \<le> \<bar>c * \<bar>a\<bar>\<bar>")
    case True
    have "(0 :: real) < overflow_threshold"
      by (simp add: overflow_threshold_def)
    with True nn have "0 < c * \<bar>a\<bar>"
      by linarith
    with True Finite show ?thesis
      by (simp add: np_abs_def round64_def negative_def)
  next
    case False
    with Finite round64_finite_nonneg [OF nn] show ?thesis
      by (simp add: np_abs_def round64_def negative_def)
  qed
next
  case PosInf
  with assms show ?thesis
    by (simp add: np_abs_def negative_def)
next
  case NegInf
  with assms show ?thesis
    by (simp add: np_abs_def negative_def)
next
  case NaN
  then show ?thesis
    by (simp add: np_abs_def negative_def)
qed

text \<open>With a cosine between -1 and 1 the product stays within the factor.\<close>

lemma scaled_abs_in_range:
  assumes "\<bar>a\<bar> \<le> 1" and "0 \<le> c" and "c \<le> 1024"
  shows "in_range 0 (of_int c) (fmul (Finite (of_int c)) (np_abs (Finite a)))"
proof -
  define x :: real where "x = of_int c * \<bar>a\<bar>"
  have lo: "0 \<le> x"
    using assms(2) by (simp add: x_def)
  have "x \<le> of_int c * 1"
    unfolding x_def using assms(1,2) by (intro mult_left_mono) simp_all
  then have hi: "x \<le> of_int c"
    by simp
  have "(of_int c :: real) \<le> 1024"
    using assms(3) by simp
  with lo hi have "\<bar>x\<bar> \<le> 1024"
    by simp
  then have r: "round64 x = Finite (round64_finite x)"
    by (intro round64_Finite below_overflow_threshold)
  have "c < 2 ^ 53"
    using assms(3) by simp
  from round64_finite_range [OF lo hi this] r show ?thesis
    by (simp add: np_abs_def in_range_def x_def)
qed

lemma not_finite_gives_nan:
  assumes "\<forall>x. v \<noteq> Finite x"
  shows "fmul (Finite c) (np_abs (np_cos L v)) = NaN"
  using assms by (cases v) (auto simp add: np_abs_def)

section \<open>The grid of the sweep\<close>

text \<open>
  The samples of \<^verbatim>\<open>np.linspace(0.0, 1.0, 151)\<close>: a multiple of the rounded step,
  rounded, plus zero, rounded; the last one is 1.
\<close>

lemma grid_sample:
  assumes "i < 151"
  shows "fadd (fmul (Finite (real i)) (Finite (7686143364045647 / 2 ^ 60))) (Finite 0) =
           Finite (round64_finite (round64_finite (real i * (7686143364045647 / 2 ^ 60))))"
proof -
  define x :: real where "x = real i * (7686143364045647 / 2 ^ 60)"
  have lo: "0 \<le> x"
    by (simp add: x_def)
  have "x \<le> 151 * (7686143364045647 / 2 ^ 60)"
    unfolding x_def using assms by (intro mult_right_mono) simp_all
  then have hi: "x \<le> of_int 2"
    by simp
  from lo hi have "\<bar>x\<bar> \<le> 1024"
    by simp
  then have r1: "round64 x = Finite (round64_finite x)"
    by (intro round64_Finite below_overflow_threshold)
  have b: "0 \<le> round64_finite x \<and> round64_finite x \<le> of_int 2"
    using lo hi by (rule round64_finite_range) simp
  then have "\<bar>round64_finite x\<bar> \<le> 1024"
    by simp
  then have r2: "round64 (round64_finite x) = Finite (round64_finite (round64_finite x))"
    by (intro round64_Finite below_overflow_threshold)
  show ?thesis
    using r1 r2 by (simp add: x_def)
qed

lemma linspace_grid:
  "linspace 0 1 151 =
     (map (\<lambda>i. Finite (round64_finite (round64_finite (real i * (7686143364045647 / 2 ^ 60)))))
        [0..<151])[150 := Finite 1]"
proof -
  define s :: real where "s = 7686143364045647 / 2 ^ 60"
  have one: "round64 1 = Finite 1"
    using round64_Finite [of 1] below_overflow_threshold [of 1] by (simp add: round64_finite_one)
  have "\<bar>1 / 150 :: real\<bar> \<le> 1024"
    by simp
  then have "round64 (1 / 150) = Finite (round64_finite (1 / 150))"
    by (intro round64_Finite below_overflow_threshold)
  then have step: "round64 (1 / 150) = Finite s"
    by (simp only: round64_finite_step s_def)
  have s0: "s \<noteq> 0"
    by (simp add: s_def)
  have delta: "fsub (Finite 1) (Finite 0) = Finite 1"
    using one by (simp add: fsub_def)
  have samples:
    "map (\<lambda>v. fadd v (Finite 0))
       (map (\<lambda>v. fmul v (Finite s)) (map (\<lambda>i. Finite (real i)) [0..<151])) =
     map (\<lambda>i. Finite (round64_finite (round64_finite (real i * s)))) [0..<151]"
    unfolding map_map comp_def
  proof (rule map_cong [OF refl])
    fix i :: nat
    assume "i \<in> set [0..<151]"
    then have "i < 151"
      by simp
    then show "fadd (fmul (Finite (real i)) (Finite s)) (Finite 0) =
        Finite (round64_finite (round64_finite (real i * s)))"
      unfolding s_def by (rule grid_sample)
  qed
  have "linspace 0 1 151 =
      (map (\<lambda>v. fadd v (Finite 0))
         (map (\<lambda>v. fmul v (Finite s)) (map (\<lambda>i. Finite (real i)) [0..<151])))
        [150 := Finite 1]"
    unfolding linspace_def Let_def delta using step s0 by (simp del: map_map upt_Suc)
  then have "linspace 0 1 151 =
      (map (\<lambda>i. Finite (round64_finite (round64_finite (real i * s)))) [0..<151])
        [150 := Finite 1]"
    unfolding samples .
  then show ?thesis
    unfolding s_def .
qed

lemma length_grid: "length (linspace 0 1 151) = 151"
  by (simp add: linspace_grid)

lemma grid_nth:
  assumes "i < 150"
  shows "linspace 0 1 151 ! i =
           Finite (round64_finite (round64_finite (real i * (7686143364045647 / 2 ^ 60))))"
proof -
  have "i < length (map (\<lambda>i. Finite (round64_finite (round64_finite
      (real i * (7686143364045647 / 2 ^ 60))))) [0..<151])"
    using assms by simp
  then show ?thesis
    using assms by (simp add: linspace_grid nth_list_update del: upt_Suc)
qed

lemma grid_first: "linspace 0 1 151 ! 0 = Finite 0"
  using grid_nth [of 0] by (simp add: round64_finite_def)

lemma grid_last: "linspace 0 1 151 ! 150 = Finite 1"
  by (simp add: linspace_grid del: upt_Suc)

text \<open>A sample is within \<open>2 ^ -52 + 150 * 2 ^ -61\<close> of the ideal one.\<close>

lemma grid_sample_error:
  assumes "i < 150"
  shows "\<bar>round64_finite (round64_finite (real i * (7686143364045647 / 2 ^ 60))) - real i / 150\<bar>
           \<le> 1 / 2 ^ 52 + 150 / 2 ^ 61"
proof -
  define x :: real where "x = real i * (7686143364045647 / 2 ^ 60)"
  define r where "r = round64_finite x"
  have lo: "0 \<le> x"
    by (simp add: x_def)
  have "x \<le> 150 * (7686143364045647 / 2 ^ 60)"
    unfolding x_def using assms by (intro mult_right_mono) simp_all
  then have hi: "x \<le> 5 / 4"
    by simp
  have e1: "\<bar>r - x\<bar> \<le> 1 / 2 ^ 53"
    unfolding r_def using lo hi by (intro round64_finite_error_small) simp
  then have "\<bar>r - x\<bar> \<le> 1 / 2"
    by (rule order_trans) simp
  then have "\<bar>r\<bar> < 2"
    using lo hi by linarith
  then have e2: "\<bar>round64_finite r - r\<bar> \<le> 1 / 2 ^ 53"
    by (rule round64_finite_error_small)
  have "x - real i / 150 = real i * (7686143364045647 / 2 ^ 60 - 1 / 150)"
    by (simp add: x_def algebra_simps)
  also have "\<bar>\<dots>\<bar> = real i * \<bar>7686143364045647 / 2 ^ 60 - 1 / 150 :: real\<bar>"
    by (simp add: abs_mult)
  also have "\<dots> \<le> 150 * (1 / 2 ^ 61)"
    using assms by (intro mult_mono) simp_all
  finally have e3: "\<bar>x - real i / 150\<bar> \<le> 150 / 2 ^ 61"
    by simp
  have "\<bar>round64_finite r - real i / 150\<bar> \<le>
      \<bar>round64_finite r - r\<bar> + \<bar>r - x\<bar> + \<bar>x - real i / 150\<bar>"
    by linarith
  with e1 e2 e3 have "\<bar>round64_finite r - real i / 150\<bar> \<le> 1 / 2 ^ 53 + 1 / 2 ^ 53 + 150 / 2 ^ 61"
    by linarith
  then show ?thesis
    by (simp add: r_def x_def)
qed

text \<open>
  Consecutive samples are 1/150 apart up to rounding, and never exactly.
\<close>

lemma grid_step:
  assumes "i < 150"
  shows "\<exists>a b. linspace 0 1 151 ! i = Finite a \<and> linspace 0 1 151 ! (i + 1) = Finite b \<and>
           b - a \<noteq> 1 / 150 \<and> \<bar>b - a - 1 / 150\<bar> \<le> 1 / 2 ^ 50"
proof -
  define g where
    "g j = round64_finite (round64_finite (real j * (7686143364045647 / 2 ^ 60)))" for j :: nat
  define b where "b = (if i + 1 < 150 then g (i + 1) else 1)"
  have a: "linspace 0 1 151 ! i = Finite (g i)"
    using assms by (simp add: grid_nth g_def)
  have b: "linspace 0 1 151 ! (i + 1) = Finite b"
  proof (cases "i + 1 < 150")
    case True
    then show ?thesis
      using grid_nth [of "i + 1"] by (simp add: b_def g_def)
  next
    case False
    with assms have "i + 1 = 150"
      by simp
    with False show ?thesis
      by (simp add: b_def grid_last)
  qed
  define E :: real where "E = 1 / 2 ^ 52 + 150 / 2 ^ 61"
  have E: "0 \<le> E" "2 * E \<le> 1 / 2 ^ 50"
    by (simp_all add: E_def)
  have ea: "\<bar>g i - real i / 150\<bar> \<le> E"
    unfolding g_def E_def using assms by (rule grid_sample_error)
  have eb: "\<bar>b - real (i + 1) / 150\<bar> \<le> E"
  proof (cases "i + 1 < 150")
    case True
    then show ?thesis
      unfolding b_def g_def E_def using grid_sample_error [of "i + 1"] by simp
  next
    case False
    with assms have "i + 1 = 150"
      by simp
    with False E(1) show ?thesis
      by (simp add: b_def)
  qed
  have "b - g i - 1 / 150 = (b - real (i + 1) / 150) - (g i - real i / 150)"
    by (simp add: field_simps)
  then have "\<bar>b - g i - 1 / 150\<bar> \<le> \<bar>b - real (i + 1) / 150\<bar> + \<bar>g i - real i / 150\<bar>"
    by linarith
  with ea eb have "\<bar>b - g i - 1 / 150\<bar> \<le> 2 * E"
    by linarith
  with E(2) have bound: "\<bar>b - g i - 1 / 150\<bar> \<le> 1 / 2 ^ 50"
    by linarith
  obtain m :: int where m: "g i * 2 ^ 1074 = of_int m"
    unfolding g_def using round64_finite_dyadic by blast
  obtain n :: int where n: "b * 2 ^ 1074 = of_int n"
  proof (cases "i + 1 < 150")
    case True
    then show ?thesis
      using round64_finite_dyadic [of "round64_finite (real (i + 1) * (7686143364045647 / 2 ^ 60))"] that
      by (auto simp add: b_def g_def)
  next
    case False
    have "(1 :: real) * 2 ^ 1074 = of_int (2 ^ 1074)"
      by simp
    with False that show ?thesis
      by (simp only: b_def if_False)
  qed
  have "b - g i \<noteq> 1 / 150"
    using m n by (rule doubles_not_150th_apart)
  with a b bound show ?thesis
    by blast
qed

section \<open>Evaluating the run\<close>

lemmas stmt_defs =
  import_numpy_def import_scqubits_def assign_tmon1_def assign_tmon2_def
  assign_resonator_def assign_g_def assign_hilbertspace_create_def assign_hilbertspace_def
  print_hilbertspace_def assign_g1_def assign_operator1_def assign_operator2_def
  add_interaction1_def assign_g2_def add_interaction2_def assign_param_name_def
  assign_param_vals_def assign_subsys_update_list_def def_update_hilbertspace_def
  assign_sweep_def assign_explorer_def

lemmas cell_defs =
  cell1_def cell2_def cell3_def cell4_def cell5_def cell6_def cell7_def cell8_def cell9_def
  notebook_def

lemmas prim_defs = and_then_def lookup_def imported_def perform_def Let_def

lemmas run_defs =
  run_notebook_def cell_defs stmt_defs prim_defs initial_state_def Transmon_def
  Oscillator_def

text \<open>With its three names bound, the callback returns, and this is the state it returns.\<close>

lemma update_hilbertspace_eq:
  "np s \<Longrightarrow> tmon1 s \<noteq> None \<Longrightarrow> tmon2 s \<noteq> None \<Longrightarrow>
   update_hilbertspace L p s =
     Inr (s\<lparr>tmon1 := Some ((the (tmon1 s))
                 \<lparr>EJ := fmul (Finite 30) (np_abs (np_cos L (fmul np_pi p)))\<rparr>),
            tmon2 := Some ((the (tmon2 s))
                 \<lparr>EJ := fmul (Finite 40)
                          (np_abs (np_cos L (fmul (fmul np_pi p) (Finite 2))))\<rparr>)\<rparr>)"
  by (auto simp add: update_hilbertspace_def)

text \<open>
  However often the library calls back, only the two Josephson energies move: they hold
  what the last call assigned.
\<close>

lemma run_callbacks_eq:
  "np s \<Longrightarrow> tmon1 s \<noteq> None \<Longrightarrow> tmon2 s \<noteq> None \<Longrightarrow>
   run_callbacks L Update_hilbertspace ps s =
     Inr (s\<lparr>tmon1 := Some ((the (tmon1 s))
                 \<lparr>EJ := (if ps = [] then EJ (the (tmon1 s))
                         else fmul (Finite 30) (np_abs (np_cos L (fmul np_pi (last ps)))))\<rparr>),
            tmon2 := Some ((the (tmon2 s))
                 \<lparr>EJ := (if ps = [] then EJ (the (tmon2 s))
                         else fmul (Finite 40)
                                (np_abs (np_cos L (fmul (fmul np_pi (last ps)) (Finite 2)))))\<rparr>)\<rparr>)"
proof (induction ps arbitrary: s)
  case Nil
  then show ?case by auto
next
  case (Cons p ps)
  then show ?case
    by (simp add: update_hilbertspace_eq and_then_def)
qed

text \<open>Once cells 1 and 2 have run, every name the callback reads is bound.\<close>

lemma names_bound_after_cell2:
  assumes "run_cells L [cell1, cell2] initial_state = Inr s"
  shows "np s \<and> tmon1 s \<noteq> None \<and> tmon2 s \<noteq> None \<and> resonator s \<noteq> None"
  using assms
  by (auto simp add: cell_defs stmt_defs prim_defs initial_state_def
      split: option.splits sum.splits if_splits)

lemma quiet_never_raises: "first_raise (quiet :: unit library) [] notebook_effects = None"
  by (simp add: quiet_def notebook_effects_def)

lemmas value_defs =
  first_interaction_def second_interaction_def coupled_space_def flux_name_def
  configured_sweep_def

text \<open>
  A run in which no call raises completes, and this is what it leaves behind. (The two
  transmons are bound; their \<^verbatim>\<open>EJ\<close> is whatever the last callback assigned.)
  The proof first splits the hypothesis into one fact per call of the run, then evaluates
  the run with those facts.
\<close>

lemma completed_run:
  assumes "first_raise L [] notebook_effects = None"
  shows "\<exists>s. run_notebook L = Inr s \<and>
           effects s = notebook_effects \<and>
           hilbertspace s = Some coupled_space \<and>
           param_name s = Some flux_name \<and>
           param_vals s = Some (linspace 0 1 151) \<and>
           update_hilbertspace_fn s = Some Update_hilbertspace \<and>
           sweep s = Some configured_sweep \<and>
           explorer s = Some \<lparr>explorer_sweep = configured_sweep\<rparr> \<and>
           tmon1 s \<noteq> None \<and> tmon2 s \<noteq> None \<and>
           resonator s = Some (Oscillator 4.5 4)"
  using assms unfolding notebook_effects_def value_defs
  apply (simp split: option.splits)
  apply (simp add: run_defs run_callbacks_eq)
  done

text \<open>A run in which some call raises ends with the first exception raised.\<close>

lemma raising_run:
  assumes "first_raise L [] notebook_effects = Some e"
  shows "run_notebook L = Inl (Library_error e)"
  using assms unfolding notebook_effects_def value_defs
  apply (simp split: option.splits)
  apply (simp_all add: run_defs run_callbacks_eq)
  done

lemma named_calls_of_notebook:
  "filter (\<lambda>c. step_of c \<noteq> None \<and> c \<noteq> HilbertSpace_create_call) notebook_effects =
     [Transmon_call 40.0 0.2 0.3 40 4,
      Transmon_call 15.0 0.15 0.0 30 4,
      Oscillator_call 4.5 4,
      HilbertSpace_call [Tmon1, Tmon2, Resonator],
      Add_interaction_call (Subsystem_list [Tmon1, Tmon2, Resonator]) first_interaction,
      Add_interaction_call (Subsystem_list [Tmon1, Tmon2, Resonator]) second_interaction,
      ParameterSweep_call configured_sweep,
      Explorer_call configured_sweep]"
  by (simp add: notebook_effects_def)

lemma step_calls_of_notebook:
  "step_calls notebook_effects =
     [Transmon_call 40.0 0.2 0.3 40 4,
      Transmon_call 15.0 0.15 0.0 30 4,
      Oscillator_call 4.5 4,
      HilbertSpace_create_call,
      HilbertSpace_call [Tmon1, Tmon2, Resonator],
      Add_interaction_call (Subsystem_list [Tmon1, Tmon2, Resonator]) first_interaction,
      Add_interaction_call (Subsystem_list [Tmon1, Tmon2, Resonator]) second_interaction,
      ParameterSweep_call configured_sweep,
      Explorer_call configured_sweep]"
  by (simp add: notebook_effects_def step_calls_def)

lemma instantiate_calls_of_notebook:
  "calls_of_step Instantiate notebook_effects =
     [Transmon_call 40.0 0.2 0.3 40 4, Transmon_call 15.0 0.15 0.0 30 4, Oscillator_call 4.5 4]"
  by (simp add: notebook_effects_def calls_of_step_def)

lemma assemble_calls_of_notebook:
  "calls_of_step Assemble notebook_effects =
     [HilbertSpace_create_call, HilbertSpace_call [Tmon1, Tmon2, Resonator]]"
  by (simp add: notebook_effects_def calls_of_step_def)

lemma register_calls_of_notebook:
  "calls_of_step Register notebook_effects =
     [Add_interaction_call (Subsystem_list [Tmon1, Tmon2, Resonator]) first_interaction,
      Add_interaction_call (Subsystem_list [Tmon1, Tmon2, Resonator]) second_interaction]"
  by (simp add: notebook_effects_def calls_of_step_def)

lemma sweep_calls_of_notebook:
  "calls_of_step Sweep notebook_effects = [ParameterSweep_call configured_sweep]"
  by (simp add: notebook_effects_def calls_of_step_def)

lemma explore_calls_of_notebook:
  "calls_of_step Explore notebook_effects = [Explorer_call configured_sweep]"
  by (simp add: notebook_effects_def calls_of_step_def)

lemma quiet_run:
  "\<exists>s. run_notebook (quiet :: unit library) = Inr s \<and> effects s = notebook_effects"
  using completed_run [OF quiet_never_raises] by blast

lemma effects_of_quiet_run:
  "effects_of (run_notebook (quiet :: unit library)) = notebook_effects"
  using quiet_run by (auto simp add: effects_of_def)


lemma imports_of_notebook:
  "filter (\<lambda>c. kind_of c = Module_import) notebook_effects =
     [Import ''numpy'', Import ''scqubits'']"
  by (simp add: notebook_effects_def)

lemma builtin_calls_of_notebook:
  "filter (\<lambda>c. kind_of c = Builtin_output) notebook_effects =
     [Print_call \<lparr>origin = Subsystem_list [Tmon1, Tmon2, Resonator], interaction_list = []\<rparr>]"
  by (simp add: notebook_effects_def)

lemma library_calls_of_notebook:
  "filter (\<lambda>c. kind_of c = Library_call) notebook_effects =
     [Transmon_call 40.0 0.2 0.3 40 4,
      Transmon_call 15.0 0.15 0.0 30 4,
      Oscillator_call 4.5 4,
      HilbertSpace_create_call,
      HilbertSpace_call [Tmon1, Tmon2, Resonator],
      N_operator_call Tmon1,
      Creation_operator_call Resonator,
      Annihilation_operator_call Resonator,
      Operator_add_call (Creation_operator Resonator) (Annihilation_operator Resonator),
      Add_interaction_call (Subsystem_list [Tmon1, Tmon2, Resonator]) first_interaction,
      Add_interaction_call (Subsystem_list [Tmon1, Tmon2, Resonator]) second_interaction,
      Linspace_call 0.0 1.0 151,
      ParameterSweep_call configured_sweep,
      Explorer_call configured_sweep]"
  by (simp add: notebook_effects_def)

lemma print_in_notebook:
  "Print_call \<lparr>origin = Subsystem_list [Tmon1, Tmon2, Resonator], interaction_list = []\<rparr>
     \<in> set notebook_effects"
  by (simp add: notebook_effects_def)

lemma interactions_couple:
  "couples_charge_to_resonator first_interaction \<and>
   couples_charge_to_resonator second_interaction"
  by (simp add: couples_charge_to_resonator_def first_interaction_def
      second_interaction_def)

lemma update_hilbertspace_Inr:
  assumes "update_hilbertspace L p s = Inr s'"
  shows "np s \<and> tmon1 s \<noteq> None \<and> tmon2 s \<noteq> None"
  using assms
  by (auto simp add: update_hilbertspace_def Let_def split: if_splits option.splits)

section \<open>The callback: frame and range\<close>

text \<open>
  C8. For every parameter value, a call of \<^verbatim>\<open>update_hilbertspace\<close> changes only the
  attribute \<^verbatim>\<open>EJ\<close> of \<^verbatim>\<open>tmon1\<close> and of \<^verbatim>\<open>tmon2\<close>: the attributes
  \<^verbatim>\<open>EC\<close>, \<^verbatim>\<open>ng\<close>, \<^verbatim>\<open>ncut\<close> and \<^verbatim>\<open>truncated_dim\<close> of both transmons, the
  resonator, and every other global name are as before the call.
\<close>

theorem update_hilbertspace_frame:
  assumes "np s" and "tmon1 s = Some t1" and "tmon2 s = Some t2"
  shows "\<exists>s' t1' t2'.
           update_hilbertspace L p s = Inr s' \<and>
           tmon1 s' = Some t1' \<and> tmon2 s' = Some t2' \<and>
           EC t1' = EC t1 \<and> ng t1' = ng t1 \<and> ncut t1' = ncut t1 \<and>
           truncated_dim t1' = truncated_dim t1 \<and>
           EC t2' = EC t2 \<and> ng t2' = ng t2 \<and> ncut t2' = ncut t2 \<and>
           truncated_dim t2' = truncated_dim t2 \<and>
           resonator s' = resonator s \<and>
           s' = s\<lparr>tmon1 := Some (t1\<lparr>EJ := EJ t1'\<rparr>), tmon2 := Some (t2\<lparr>EJ := EJ t2'\<rparr>)\<rparr>"
  using assms by (simp add: update_hilbertspace_eq)

text \<open>The frame property at the objects of cell 2, for the parameter value 1/4.\<close>

theorem update_hilbertspace_frame_witness:
  "\<exists>s' t1' t2'.
     update_hilbertspace (quiet :: unit library) (Finite (1 / 4))
       (initial_state\<lparr>np := True, tmon1 := Some (Transmon 40.0 0.2 0.3 40 4),
                      tmon2 := Some (Transmon 15.0 0.15 0.0 30 4),
                      resonator := Some (Oscillator 4.5 4)\<rparr>)
       = Inr s' \<and>
     tmon1 s' = Some t1' \<and> tmon2 s' = Some t2' \<and>
     EC t1' = EC (Transmon 40.0 0.2 0.3 40 4) \<and> ng t1' = ng (Transmon 40.0 0.2 0.3 40 4) \<and>
     ncut t1' = ncut (Transmon 40.0 0.2 0.3 40 4) \<and>
     truncated_dim t1' = truncated_dim (Transmon 40.0 0.2 0.3 40 4) \<and>
     EC t2' = EC (Transmon 15.0 0.15 0.0 30 4) \<and> ng t2' = ng (Transmon 15.0 0.15 0.0 30 4) \<and>
     ncut t2' = ncut (Transmon 15.0 0.15 0.0 30 4) \<and>
     truncated_dim t2' = truncated_dim (Transmon 15.0 0.15 0.0 30 4) \<and>
     resonator s' =
       resonator (initial_state\<lparr>np := True, tmon1 := Some (Transmon 40.0 0.2 0.3 40 4),
                                tmon2 := Some (Transmon 15.0 0.15 0.0 30 4),
                                resonator := Some (Oscillator 4.5 4)\<rparr>) \<and>
     s' = initial_state\<lparr>np := True, tmon1 := Some (Transmon 40.0 0.2 0.3 40 4),
                        tmon2 := Some (Transmon 15.0 0.15 0.0 30 4),
                        resonator := Some (Oscillator 4.5 4)\<rparr>
            \<lparr>tmon1 := Some ((Transmon 40.0 0.2 0.3 40 4)\<lparr>EJ := EJ t1'\<rparr>),
             tmon2 := Some ((Transmon 15.0 0.15 0.0 30 4)\<lparr>EJ := EJ t2'\<rparr>)\<rparr>"
proof -
  let ?s = "initial_state\<lparr>np := True, tmon1 := Some (Transmon 40.0 0.2 0.3 40 4),
                          tmon2 := Some (Transmon 15.0 0.15 0.0 30 4),
                          resonator := Some (Oscillator 4.5 4)\<rparr>"
  have h1: "np ?s"
    by simp
  have h2: "tmon1 ?s = Some (Transmon 40.0 0.2 0.3 40 4)"
    by simp
  have h3: "tmon2 ?s = Some (Transmon 15.0 0.15 0.0 30 4)"
    by simp
  show ?thesis
    by (rule update_hilbertspace_frame [OF h1 h2 h3])
qed

text \<open>
  C9, as stated: for every real parameter value the Josephson energy assigned to
  \<^verbatim>\<open>tmon1\<close> lies in \<open>[0, 30]\<close>. It fails at the parameter value
  \<^verbatim>\<open>1e308\<close>: the product \<^verbatim>\<open>np.pi * param_val\<close> overflows to infinity, the cosine
  of infinity is nan, and nan is what both transmons receive.
\<close>

theorem EJ_nan_at_1e308_counterexample:
  "\<exists>s' t1' t2'.
     update_hilbertspace (quiet :: unit library) (Finite double_1e308)
       (initial_state\<lparr>np := True, tmon1 := Some (Transmon 40.0 0.2 0.3 40 4),
                      tmon2 := Some (Transmon 15.0 0.15 0.0 30 4)\<rparr>)
       = Inr s' \<and>
     tmon1 s' = Some t1' \<and> tmon2 s' = Some t2' \<and>
     EJ t1' = NaN \<and> EJ t2' = NaN \<and>
     \<not> in_range 0 30 (EJ t1') \<and> \<not> in_range 0 40 (EJ t2')"
proof -
  have "overflow_threshold \<le> \<bar>884279719003555 / 281474976710656 * double_1e308\<bar>"
    by (simp add: overflow_threshold_def double_1e308_def)
  then have "fmul np_pi (Finite double_1e308) = PosInf"
    by (simp add: np_pi_def round64_def double_1e308_def)
  then show ?thesis
    by (simp add: update_hilbertspace_eq np_abs_def in_range_def initial_state_def)
qed

text \<open>
  C9, amended. For every float64 parameter value \<open>p\<close>, \<^verbatim>\<open>update_hilbertspace(p)\<close>
  returns and assigns, in float64, 30 times the absolute value of numpy's cosine of the
  product \<^verbatim>\<open>np.pi * p\<close> to \<^verbatim>\<open>tmon1.EJ\<close>, and 40 times the absolute value of
  numpy's cosine of \<^verbatim>\<open>np.pi * p * 2\<close> to \<^verbatim>\<open>tmon2.EJ\<close>. With a cosine that stays
  between -1 and 1, \<^verbatim>\<open>tmon1.EJ\<close> lies in \<open>[0, 30]\<close> whenever the first product is
  finite, and \<^verbatim>\<open>tmon2.EJ\<close> in \<open>[0, 40]\<close> whenever the second is; when a product
  is infinite or nan, the energy assigned is nan.
\<close>

theorem update_hilbertspace_EJ_range:
  assumes "np s" and "tmon1 s = Some t1" and "tmon2 s = Some t2"
    and "\<forall>x. \<bar>cos64 L x\<bar> \<le> 1"
  shows "\<exists>s' t1' t2'.
           update_hilbertspace L p s = Inr s' \<and>
           tmon1 s' = Some t1' \<and> tmon2 s' = Some t2' \<and>
           EJ t1' = fmul (Finite 30) (np_abs (np_cos L (fmul np_pi p))) \<and>
           EJ t2' = fmul (Finite 40) (np_abs (np_cos L (fmul (fmul np_pi p) (Finite 2)))) \<and>
           (case fmul np_pi p of
              Finite x \<Rightarrow> in_range 0 30 (EJ t1')
            | _ \<Rightarrow> EJ t1' = NaN) \<and>
           (case fmul (fmul np_pi p) (Finite 2) of
              Finite x \<Rightarrow> in_range 0 40 (EJ t2')
            | _ \<Rightarrow> EJ t2' = NaN)"
proof -
  have r: "in_range 0 30 (fmul (Finite 30) (np_abs (np_cos L (Finite x))))"
    "in_range 0 40 (fmul (Finite 40) (np_abs (np_cos L (Finite x))))" for x
    using assms(4) scaled_abs_in_range [of "cos64 L x" 30] scaled_abs_in_range [of "cos64 L x" 40]
    by simp_all
  have e1: "(case fmul np_pi p of
        Finite x \<Rightarrow> in_range 0 30 (fmul (Finite 30) (np_abs (np_cos L (fmul np_pi p))))
      | _ \<Rightarrow> fmul (Finite 30) (np_abs (np_cos L (fmul np_pi p))) = NaN)"
    using r(1) by (cases "fmul np_pi p") (simp_all add: np_abs_def)
  have e2: "(case fmul (fmul np_pi p) (Finite 2) of
        Finite x \<Rightarrow>
          in_range 0 40 (fmul (Finite 40) (np_abs (np_cos L (fmul (fmul np_pi p) (Finite 2)))))
      | _ \<Rightarrow> fmul (Finite 40) (np_abs (np_cos L (fmul (fmul np_pi p) (Finite 2)))) = NaN)"
    using r(2) by (cases "fmul (fmul np_pi p) (Finite 2)") (simp_all add: np_abs_def)
  show ?thesis
    using assms(1-3) e1 e2
    by (simp add: update_hilbertspace_eq split: float64.splits)
qed

text \<open>
  The range at the objects of cell 2, for the parameter value 1/4 and the real cosine.
\<close>

theorem update_hilbertspace_EJ_range_witness:
  "(\<forall>x. \<bar>cos64 (quiet :: unit library) x\<bar> \<le> 1) \<and>
   (\<exists>s' t1' t2'.
     update_hilbertspace (quiet :: unit library) (Finite (1 / 4))
       (initial_state\<lparr>np := True, tmon1 := Some (Transmon 40.0 0.2 0.3 40 4),
                      tmon2 := Some (Transmon 15.0 0.15 0.0 30 4)\<rparr>)
       = Inr s' \<and>
     tmon1 s' = Some t1' \<and> tmon2 s' = Some t2' \<and>
     EJ t1' = fmul (Finite 30) (np_abs (np_cos (quiet :: unit library)
                (fmul np_pi (Finite (1 / 4))))) \<and>
     EJ t2' = fmul (Finite 40) (np_abs (np_cos (quiet :: unit library)
                (fmul (fmul np_pi (Finite (1 / 4))) (Finite 2)))) \<and>
     (case fmul np_pi (Finite (1 / 4)) of
        Finite x \<Rightarrow> in_range 0 30 (EJ t1')
      | _ \<Rightarrow> EJ t1' = NaN) \<and>
     (case fmul (fmul np_pi (Finite (1 / 4))) (Finite 2) of
        Finite x \<Rightarrow> in_range 0 40 (EJ t2')
      | _ \<Rightarrow> EJ t2' = NaN))"
proof -
  let ?s = "initial_state\<lparr>np := True, tmon1 := Some (Transmon 40.0 0.2 0.3 40 4),
                          tmon2 := Some (Transmon 15.0 0.15 0.0 30 4)\<rparr>"
  have h1: "np ?s"
    by simp
  have h2: "tmon1 ?s = Some (Transmon 40.0 0.2 0.3 40 4)"
    by simp
  have h3: "tmon2 ?s = Some (Transmon 15.0 0.15 0.0 30 4)"
    by simp
  have h4: "\<forall>x. \<bar>cos64 (quiet :: unit library) x\<bar> \<le> 1"
    by (simp add: quiet_def)
  show ?thesis
    using h4 update_hilbertspace_EJ_range [OF h1 h2 h3 h4] by (rule conjI)
qed

text \<open>
  C3, as stated: for every subsystem parameter, notebook code guarantees no constraint,
  such as a sign bound, on the value assigned. It fails for \<^verbatim>\<open>tmon1.EJ\<close>: whatever the
  library and the parameter value, no call of \<^verbatim>\<open>update_hilbertspace\<close> assigns it a
  value below zero.
\<close>

theorem EJ_sign_bound_counterexample:
  "\<not> (\<exists>(L :: unit library) p s s' t.
         update_hilbertspace L p s = Inr s' \<and> tmon1 s' = Some t \<and> negative (EJ t))"
proof
  assume "\<exists>(L :: unit library) p s s' t.
      update_hilbertspace L p s = Inr s' \<and> tmon1 s' = Some t \<and> negative (EJ t)"
  then obtain L :: "unit library" and p s s' t
    where u: "update_hilbertspace L p s = Inr s'"
      and t: "tmon1 s' = Some t" and neg: "negative (EJ t)"
    by blast
  from update_hilbertspace_Inr [OF u]
  have b: "np s" "tmon1 s \<noteq> None" "tmon2 s \<noteq> None"
    by simp_all
  from u t have "EJ t = fmul (Finite 30) (np_abs (np_cos L (fmul np_pi p)))"
    by (auto simp add: update_hilbertspace_eq [OF b])
  with neg scaled_abs_not_negative [of 30 "np_cos L (fmul np_pi p)"] show False
    by simp
qed

text \<open>
  C3, amended. The notebook's own code checks and rejects nothing: a run fails only with an
  exception that a library call raises, the constructors receive the literals of cell 2 as
  they are written, and \<^verbatim>\<open>update_hilbertspace\<close> accepts every float64 parameter value
  and leaves every attribute other than \<^verbatim>\<open>EJ\<close> as it finds it. It does guarantee one
  constraint on a value it assigns: the \<^verbatim>\<open>EJ\<close> that \<^verbatim>\<open>update_hilbertspace\<close> gives
  to \<^verbatim>\<open>tmon1\<close> and to \<^verbatim>\<open>tmon2\<close> is never negative (it is a float64 that is zero
  or above, or nan). Every other validation is the library's.
\<close>

theorem no_validation_but_EJ_sign:
  assumes "np s" and "tmon1 s = Some t1" and "tmon2 s = Some t2"
  shows "(\<exists>s' t1' t2'.
            update_hilbertspace L p s = Inr s' \<and>
            tmon1 s' = Some t1' \<and> tmon2 s' = Some t2' \<and>
            \<not> negative (EJ t1') \<and> \<not> negative (EJ t2') \<and>
            t1' = t1\<lparr>EJ := EJ t1'\<rparr> \<and> t2' = t2\<lparr>EJ := EJ t2'\<rparr> \<and>
            s' = s\<lparr>tmon1 := Some t1', tmon2 := Some t2'\<rparr>) \<and>
         (\<forall>x. run_notebook L = Inl x \<longrightarrow>
            (\<exists>e. x = Library_error e \<and> first_raise L [] notebook_effects = Some e)) \<and>
         (\<forall>s0. run_notebook L = Inr s0 \<longrightarrow>
            calls_of_step Instantiate (effects s0) =
              [Transmon_call 40.0 0.2 0.3 40 4, Transmon_call 15.0 0.15 0.0 30 4,
               Oscillator_call 4.5 4])"
proof -
  have n1: "\<not> negative (fmul (Finite 30) (np_abs (np_cos L (fmul np_pi p))))"
    by (rule scaled_abs_not_negative) simp
  have n2: "\<not> negative (fmul (Finite 40) (np_abs (np_cos L (fmul (fmul np_pi p) (Finite 2)))))"
    by (rule scaled_abs_not_negative) simp
  have callback: "\<exists>s' t1' t2'.
      update_hilbertspace L p s = Inr s' \<and>
      tmon1 s' = Some t1' \<and> tmon2 s' = Some t2' \<and>
      \<not> negative (EJ t1') \<and> \<not> negative (EJ t2') \<and>
      t1' = t1\<lparr>EJ := EJ t1'\<rparr> \<and> t2' = t2\<lparr>EJ := EJ t2'\<rparr> \<and>
      s' = s\<lparr>tmon1 := Some t1', tmon2 := Some t2'\<rparr>"
    using assms n1 n2 by (simp add: update_hilbertspace_eq)
  have failure: "\<exists>e. x = Library_error e \<and> first_raise L [] notebook_effects = Some e"
    if "run_notebook L = Inl x" for x
  proof (cases "first_raise L [] notebook_effects")
    case None
    from completed_run [OF None] that show ?thesis
      by auto
  next
    case (Some e)
    from raising_run [OF Some] that Some show ?thesis
      by simp
  qed
  have success: "calls_of_step Instantiate (effects s0) =
      [Transmon_call 40.0 0.2 0.3 40 4, Transmon_call 15.0 0.15 0.0 30 4, Oscillator_call 4.5 4]"
    if "run_notebook L = Inr s0" for s0
  proof (cases "first_raise L [] notebook_effects")
    case None
    from completed_run [OF None] that have "effects s0 = notebook_effects"
      by auto
    then show ?thesis
      by (simp only: instantiate_calls_of_notebook)
  next
    case (Some e)
    from raising_run [OF Some] that show ?thesis
      by simp
  qed
  show ?thesis
    using callback failure success by blast
qed

text \<open>
  The callback accepts a negative parameter value and a transmon whose \<^verbatim>\<open>EC\<close> is
  negative; under a library that never raises the run completes and the constructors have
  received the literals of cell 2.
\<close>

theorem no_validation_but_EJ_sign_witness:
  "(\<exists>s' t1' t2'.
      update_hilbertspace (quiet :: unit library) (Finite (- 7))
        (initial_state\<lparr>np := True, tmon1 := Some (Transmon 40.0 (- 1) 0.3 40 4),
                       tmon2 := Some (Transmon 15.0 0.15 0.0 30 4)\<rparr>)
        = Inr s' \<and>
      tmon1 s' = Some t1' \<and> tmon2 s' = Some t2' \<and>
      \<not> negative (EJ t1') \<and> \<not> negative (EJ t2') \<and>
      t1' = (Transmon 40.0 (- 1) 0.3 40 4)\<lparr>EJ := EJ t1'\<rparr> \<and>
      t2' = (Transmon 15.0 0.15 0.0 30 4)\<lparr>EJ := EJ t2'\<rparr> \<and>
      s' = initial_state\<lparr>np := True, tmon1 := Some (Transmon 40.0 (- 1) 0.3 40 4),
                         tmon2 := Some (Transmon 15.0 0.15 0.0 30 4)\<rparr>
             \<lparr>tmon1 := Some t1', tmon2 := Some t2'\<rparr>) \<and>
   (\<exists>s0. run_notebook (quiet :: unit library) = Inr s0 \<and>
      calls_of_step Instantiate (effects s0) =
        [Transmon_call 40.0 0.2 0.3 40 4, Transmon_call 15.0 0.15 0.0 30 4,
         Oscillator_call 4.5 4])"
proof -
  let ?s = "initial_state\<lparr>np := True, tmon1 := Some (Transmon 40.0 (- 1) 0.3 40 4),
                          tmon2 := Some (Transmon 15.0 0.15 0.0 30 4)\<rparr>"
  have h1: "np ?s"
    by simp
  have h2: "tmon1 ?s = Some (Transmon 40.0 (- 1) 0.3 40 4)"
    by simp
  have h3: "tmon2 ?s = Some (Transmon 15.0 0.15 0.0 30 4)"
    by simp
  note t = no_validation_but_EJ_sign [OF h1 h2 h3, of "quiet :: unit library" "Finite (- 7)"]
  obtain s0 where r: "run_notebook (quiet :: unit library) = Inr s0"
    using quiet_run by blast
  from t r have "calls_of_step Instantiate (effects s0) =
      [Transmon_call 40.0 0.2 0.3 40 4, Transmon_call 15.0 0.15 0.0 30 4, Oscillator_call 4.5 4]"
    by blast
  with t r show ?thesis
    by blast
qed

section \<open>The run from top to bottom\<close>

text \<open>
  C1. Executed top to bottom, the notebook performs its library calls in this order: the
  three subsystem constructors (\<^verbatim>\<open>Transmon\<close> for \<^verbatim>\<open>tmon1\<close>, \<^verbatim>\<open>Transmon\<close> for
  \<^verbatim>\<open>tmon2\<close>, \<^verbatim>\<open>Oscillator\<close> for \<^verbatim>\<open>resonator\<close>), the assembly of the
  \<^verbatim>\<open>HilbertSpace\<close> from those subsystems, the two \<^verbatim>\<open>add_interaction\<close>
  registrations on that \<^verbatim>\<open>HilbertSpace\<close>, the \<^verbatim>\<open>ParameterSweep\<close> with the
  notebook's update callback, the \<^verbatim>\<open>Explorer\<close> from that sweep; no step precedes one
  listed before it. The whole record of a run in which no call raises is
  \<open>notebook_effects\<close>; the calls that carry out a step belong, in the order they are
  performed, to steps 1, 1, 1, 2, 2, 3, 3, 4, 5 (\<^verbatim>\<open>HilbertSpace.create()\<close> is a
  second call of step 2, ahead of the assembly from the list).
\<close>

theorem notebook_call_order:
  assumes "first_raise L [] notebook_effects = None"
  shows "\<exists>s. run_notebook L = Inr s \<and>
           effects s = notebook_effects \<and>
           filter (\<lambda>c. step_of c \<noteq> None \<and> c \<noteq> HilbertSpace_create_call) (effects s) =
             [Transmon_call 40.0 0.2 0.3 40 4,
              Transmon_call 15.0 0.15 0.0 30 4,
              Oscillator_call 4.5 4,
              HilbertSpace_call [Tmon1, Tmon2, Resonator],
              Add_interaction_call (Subsystem_list [Tmon1, Tmon2, Resonator]) first_interaction,
              Add_interaction_call (Subsystem_list [Tmon1, Tmon2, Resonator]) second_interaction,
              ParameterSweep_call configured_sweep,
              Explorer_call configured_sweep] \<and>
           sweep_update_hilbertspace configured_sweep = Update_hilbertspace \<and>
           origin (sweep_hilbertspace configured_sweep) =
             Subsystem_list [Tmon1, Tmon2, Resonator] \<and>
           map step_of (step_calls (effects s)) =
             [Some Instantiate, Some Instantiate, Some Instantiate, Some Assemble,
              Some Assemble, Some Register, Some Register, Some Sweep, Some Explore]"
proof -
  from completed_run [OF assms] obtain s
    where r: "run_notebook L = Inr s" and e: "effects s = notebook_effects"
    by blast
  have cb: "sweep_update_hilbertspace configured_sweep = Update_hilbertspace"
    by (simp add: configured_sweep_def)
  have org: "origin (sweep_hilbertspace configured_sweep) =
      Subsystem_list [Tmon1, Tmon2, Resonator]"
    by (simp add: configured_sweep_def coupled_space_def)
  have steps: "map step_of (step_calls (effects s)) =
      [Some Instantiate, Some Instantiate, Some Instantiate, Some Assemble,
       Some Assemble, Some Register, Some Register, Some Sweep, Some Explore]"
    unfolding e step_calls_of_notebook by simp
  show ?thesis
    using r e cb org steps named_calls_of_notebook by (intro exI [of _ s]) simp
qed

text \<open>The order of the calls under a library that never raises.\<close>

theorem notebook_call_order_witness:
  "first_raise (quiet :: unit library) [] notebook_effects = None \<and>
   (\<exists>s. run_notebook (quiet :: unit library) = Inr s \<and>
      effects s = notebook_effects \<and>
      filter (\<lambda>c. step_of c \<noteq> None \<and> c \<noteq> HilbertSpace_create_call) (effects s) =
        [Transmon_call 40.0 0.2 0.3 40 4,
         Transmon_call 15.0 0.15 0.0 30 4,
         Oscillator_call 4.5 4,
         HilbertSpace_call [Tmon1, Tmon2, Resonator],
         Add_interaction_call (Subsystem_list [Tmon1, Tmon2, Resonator]) first_interaction,
         Add_interaction_call (Subsystem_list [Tmon1, Tmon2, Resonator]) second_interaction,
         ParameterSweep_call configured_sweep,
         Explorer_call configured_sweep] \<and>
      sweep_update_hilbertspace configured_sweep = Update_hilbertspace \<and>
      origin (sweep_hilbertspace configured_sweep) =
        Subsystem_list [Tmon1, Tmon2, Resonator] \<and>
      map step_of (step_calls (effects s)) =
        [Some Instantiate, Some Instantiate, Some Instantiate, Some Assemble,
         Some Assemble, Some Register, Some Register, Some Sweep, Some Explore])"
  using quiet_never_raises notebook_call_order [OF quiet_never_raises]
  by (rule conjI)

text \<open>
  C2, as stated: each of the five steps is exactly one library call. It fails at step 1:
  the run performs three constructor calls, not one.
\<close>

theorem single_call_per_step_counterexample:
  "length (calls_of_step Instantiate (effects_of (run_notebook (quiet :: unit library)))) = 3 \<and>
   length (calls_of_step Instantiate (effects_of (run_notebook (quiet :: unit library)))) \<noteq> 1"
  by (simp add: effects_of_quiet_run instantiate_calls_of_notebook)

text \<open>
  C2, amended. The notebook is straight-line code: every run in which no call raises
  performs the same sequence of effects, whatever the library does. Steps 4 and 5 are one
  call each (\<^verbatim>\<open>ParameterSweep\<close>, \<^verbatim>\<open>Explorer\<close>); step 1 is three constructor calls,
  step 2 two calls (\<^verbatim>\<open>HilbertSpace.create()\<close> and \<^verbatim>\<open>HilbertSpace([...])\<close>), step 3
  two \<^verbatim>\<open>add_interaction\<close> calls. One function is defined by the notebook,
  \<^verbatim>\<open>update_hilbertspace\<close>, and it is what the sweep receives as its update callback.
\<close>

theorem calls_per_step:
  assumes "first_raise L [] notebook_effects = None"
  shows "\<exists>s. run_notebook L = Inr s \<and>
           effects s = notebook_effects \<and>
           length (calls_of_step Instantiate (effects s)) = 3 \<and>
           length (calls_of_step Assemble (effects s)) = 2 \<and>
           length (calls_of_step Register (effects s)) = 2 \<and>
           calls_of_step Sweep (effects s) = [ParameterSweep_call configured_sweep] \<and>
           calls_of_step Explore (effects s) = [Explorer_call configured_sweep] \<and>
           update_hilbertspace_fn s = Some Update_hilbertspace \<and>
           sweep_update_hilbertspace configured_sweep = Update_hilbertspace"
proof -
  from completed_run [OF assms] obtain s
    where r: "run_notebook L = Inr s" and e: "effects s = notebook_effects"
      and f: "update_hilbertspace_fn s = Some Update_hilbertspace"
    by blast
  have cb: "sweep_update_hilbertspace configured_sweep = Update_hilbertspace"
    by (simp add: configured_sweep_def)
  show ?thesis
    using r e f cb
    by (intro exI [of _ s])
      (simp add: instantiate_calls_of_notebook assemble_calls_of_notebook
        register_calls_of_notebook sweep_calls_of_notebook explore_calls_of_notebook)
qed

text \<open>The calls of each step under a library that never raises.\<close>

theorem calls_per_step_witness:
  "first_raise (quiet :: unit library) [] notebook_effects = None \<and>
   (\<exists>s. run_notebook (quiet :: unit library) = Inr s \<and>
      effects s = notebook_effects \<and>
      length (calls_of_step Instantiate (effects s)) = 3 \<and>
      length (calls_of_step Assemble (effects s)) = 2 \<and>
      length (calls_of_step Register (effects s)) = 2 \<and>
      calls_of_step Sweep (effects s) = [ParameterSweep_call configured_sweep] \<and>
      calls_of_step Explore (effects s) = [Explorer_call configured_sweep] \<and>
      update_hilbertspace_fn s = Some Update_hilbertspace \<and>
      sweep_update_hilbertspace configured_sweep = Update_hilbertspace)"
  using quiet_never_raises calls_per_step [OF quiet_never_raises]
  by (rule conjI)

text \<open>
  C4. No statement of the notebook handles an error: the run ends with the first exception
  that a library call raises, handed on as it is, and it completes (with the full record
  of effects) exactly when no call raises.
\<close>

theorem exceptions_propagate:
  "(case first_raise L [] notebook_effects of
      Some e \<Rightarrow> run_notebook L = Inl (Library_error e)
    | None \<Rightarrow> (\<exists>s. run_notebook L = Inr s \<and> effects s = notebook_effects))"
proof (cases "first_raise L [] notebook_effects")
  case None
  from completed_run [OF None] have "\<exists>s. run_notebook L = Inr s \<and> effects s = notebook_effects"
    by blast
  with None show ?thesis
    by simp
next
  case (Some e)
  with raising_run [OF Some] show ?thesis
    by simp
qed

text \<open>
  A library whose \<^verbatim>\<open>HilbertSpace.create()\<close> raises: the run ends with that exception.
\<close>

theorem exceptions_propagate_witness:
  "run_notebook
     \<lparr>raises = (\<lambda>h c. if c = HilbertSpace_create_call then Some (7 :: nat) else None),
      callback_args = (\<lambda>c. []), cos64 = cos\<rparr> = Inl (Library_error 7)"
proof -
  let ?L = "\<lparr>raises = (\<lambda>h c. if c = HilbertSpace_create_call then Some (7 :: nat) else None),
             callback_args = (\<lambda>c. []), cos64 = cos\<rparr>"
  have "first_raise ?L [] notebook_effects = Some 7"
    by (simp add: notebook_effects_def)
  with exceptions_propagate [of ?L] show ?thesis
    by simp
qed

text \<open>
  C5. The composite system has exactly three subsystems, two transmons and one oscillator;
  the \<^verbatim>\<open>HilbertSpace\<close> on which the interactions are registered and the sweep runs is
  the one built from the list \<^verbatim>\<open>[tmon1, tmon2, resonator]\<close>; and each of the two
  interaction terms couples the charge operator of a transmon to the oscillator.
\<close>

theorem composite_system:
  assumes "first_raise L [] notebook_effects = None"
  shows "\<exists>s. run_notebook L = Inr s \<and>
           calls_of_step Instantiate (effects s) =
             [Transmon_call 40.0 0.2 0.3 40 4, Transmon_call 15.0 0.15 0.0 30 4,
              Oscillator_call 4.5 4] \<and>
           tmon1 s \<noteq> None \<and> tmon2 s \<noteq> None \<and> resonator s \<noteq> None \<and>
           hilbertspace s = Some coupled_space \<and>
           origin coupled_space = Subsystem_list [Tmon1, Tmon2, Resonator] \<and>
           interaction_list coupled_space = [first_interaction, second_interaction] \<and>
           couples_charge_to_resonator first_interaction \<and>
           couples_charge_to_resonator second_interaction \<and>
           calls_of_step Register (effects s) =
             [Add_interaction_call (Subsystem_list [Tmon1, Tmon2, Resonator]) first_interaction,
              Add_interaction_call (Subsystem_list [Tmon1, Tmon2, Resonator]) second_interaction] \<and>
           sweep s = Some configured_sweep \<and>
           sweep_hilbertspace configured_sweep = coupled_space"
proof -
  from completed_run [OF assms] obtain s
    where r: "run_notebook L = Inr s" and e: "effects s = notebook_effects"
      and h: "hilbertspace s = Some coupled_space" and w: "sweep s = Some configured_sweep"
      and b: "tmon1 s \<noteq> None" "tmon2 s \<noteq> None" "resonator s = Some (Oscillator 4.5 4)"
    by blast
  have v: "origin coupled_space = Subsystem_list [Tmon1, Tmon2, Resonator]"
    "interaction_list coupled_space = [first_interaction, second_interaction]"
    "sweep_hilbertspace configured_sweep = coupled_space"
    by (simp_all add: coupled_space_def configured_sweep_def)
  show ?thesis
    using r e h w b v interactions_couple
    by (intro exI [of _ s])
      (simp add: instantiate_calls_of_notebook register_calls_of_notebook)
qed

text \<open>The composite system under a library that never raises.\<close>

theorem composite_system_witness:
  "first_raise (quiet :: unit library) [] notebook_effects = None \<and>
   (\<exists>s. run_notebook (quiet :: unit library) = Inr s \<and>
      calls_of_step Instantiate (effects s) =
        [Transmon_call 40.0 0.2 0.3 40 4, Transmon_call 15.0 0.15 0.0 30 4,
         Oscillator_call 4.5 4] \<and>
      tmon1 s \<noteq> None \<and> tmon2 s \<noteq> None \<and> resonator s \<noteq> None \<and>
      hilbertspace s = Some coupled_space \<and>
      origin coupled_space = Subsystem_list [Tmon1, Tmon2, Resonator] \<and>
      interaction_list coupled_space = [first_interaction, second_interaction] \<and>
      couples_charge_to_resonator first_interaction \<and>
      couples_charge_to_resonator second_interaction \<and>
      calls_of_step Register (effects s) =
        [Add_interaction_call (Subsystem_list [Tmon1, Tmon2, Resonator]) first_interaction,
         Add_interaction_call (Subsystem_list [Tmon1, Tmon2, Resonator]) second_interaction] \<and>
      sweep s = Some configured_sweep \<and>
      sweep_hilbertspace configured_sweep = coupled_space)"
  using quiet_never_raises composite_system [OF quiet_never_raises]
  by (rule conjI)

text \<open>
  C6, as stated: consecutive grid points differ by 1/150. It fails at the first step: the
  grid is an array of doubles, its second value is the double nearest to 1/150, and no
  double is 1/150.
\<close>

theorem grid_spacing_counterexample:
  "\<exists>s grid.
     run_notebook (quiet :: unit library) = Inr s \<and>
     param_vals s = Some grid \<and>
     grid ! 0 = Finite 0 \<and>
     grid ! 1 = Finite (7686143364045647 / 2 ^ 60) \<and>
     (7686143364045647 / 2 ^ 60 - 0 :: real) \<noteq> 1 / 150"
proof -
  from completed_run [OF quiet_never_raises] obtain s
    where r: "run_notebook (quiet :: unit library) = Inr s"
      and v: "param_vals s = Some (linspace 0 1 151)"
    by blast
  have u: "(2::real) powr of_int (- 8 - 52) = 1 / 2 ^ 60"
    by (simp add: powr_minus_divide powr_realpow [symmetric])
  have lo: "(2::real) powr of_int (- 8) = 1 / 2 ^ 8"
    by (simp add: powr_minus_divide powr_realpow [symmetric])
  have hi: "(2::real) powr of_int (- 8 + 1) = 1 / 2 ^ 7"
    by (simp add: powr_minus_divide powr_realpow [symmetric])
  have "round64_finite (7686143364045647 / 2 ^ 60) =
      of_int (round_half_even ((7686143364045647 / 2 ^ 60) / 2 powr of_int (- 8 - 52)))
        * 2 powr of_int (- 8 - 52)"
    by (rule round64_finite_in_binade) (simp_all only: lo hi, simp_all)
  also have "round_half_even ((7686143364045647 / 2 ^ 60) / (2::real) powr of_int (- 8 - 52)) =
      7686143364045647"
    unfolding u by (simp add: round_half_even_def)
  finally have idem: "round64_finite (7686143364045647 / 2 ^ 60) = 7686143364045647 / 2 ^ 60"
    unfolding u by simp
  have "linspace 0 1 151 ! 1 =
      Finite (round64_finite (round64_finite (real 1 * (7686143364045647 / 2 ^ 60))))"
    by (rule grid_nth) simp
  then have second: "linspace 0 1 151 ! 1 = Finite (7686143364045647 / 2 ^ 60)"
    by (simp only: of_nat_1 mult_1 idem)
  have "(7686143364045647 / 2 ^ 60 - 0 :: real) \<noteq> 1 / 150"
    by simp
  with r v grid_first second show ?thesis
    by blast
qed

text \<open>
  C6, amended. The sweep ranges over one parameter, named by the seven code points of
  \<open>flux_name\<close> (capital phi, \<^verbatim>\<open>ext/\<close>, capital phi, \<^verbatim>\<open>0\<close>); its grid is the
  float64 array of \<^verbatim>\<open>np.linspace(0.0, 1.0, 151)\<close>: 151 values, the first exactly 0,
  the last exactly 1, consecutive ones 1/150 apart up to rounding (never exactly, and
  within \<open>2 ^ -50\<close> of it); its update callback is the notebook's
  \<^verbatim>\<open>update_hilbertspace\<close>; and \<^verbatim>\<open>evals_count\<close> is 15.
\<close>

theorem sweep_configuration:
  assumes "first_raise L [] notebook_effects = None"
  shows "\<exists>s grid.
           run_notebook L = Inr s \<and>
           sweep s = Some configured_sweep \<and>
           paramvals_by_name configured_sweep = [(flux_name, grid)] \<and>
           flux_name = [934, 101, 120, 116, 47, 934, 48] \<and>
           param_vals s = Some grid \<and>
           length grid = 151 \<and> grid ! 0 = Finite 0 \<and> grid ! 150 = Finite 1 \<and>
           (\<forall>i<150. \<exists>a b. grid ! i = Finite a \<and> grid ! (i + 1) = Finite b \<and>
              b - a \<noteq> 1 / 150 \<and> \<bar>b - a - 1 / 150\<bar> \<le> 1 / 2 ^ 50) \<and>
           update_hilbertspace_fn s = Some Update_hilbertspace \<and>
           sweep_update_hilbertspace configured_sweep = Update_hilbertspace \<and>
           evals_count configured_sweep = 15"
proof -
  from completed_run [OF assms] obtain s
    where r: "run_notebook L = Inr s" and w: "sweep s = Some configured_sweep"
      and v: "param_vals s = Some (linspace 0 1 151)"
      and f: "update_hilbertspace_fn s = Some Update_hilbertspace"
    by blast
  have c: "paramvals_by_name configured_sweep = [(flux_name, linspace 0 1 151)]"
    "sweep_update_hilbertspace configured_sweep = Update_hilbertspace"
    "evals_count configured_sweep = 15"
    by (simp_all add: configured_sweep_def)
  have n: "flux_name = [934, 101, 120, 116, 47, 934, 48]"
    by (simp add: flux_name_def)
  have g: "\<forall>i<150. \<exists>a b. linspace 0 1 151 ! i = Finite a \<and>
      linspace 0 1 151 ! (i + 1) = Finite b \<and>
      b - a \<noteq> 1 / 150 \<and> \<bar>b - a - 1 / 150\<bar> \<le> 1 / 2 ^ 50"
    using grid_step by blast
  show ?thesis
    using r w v f c n length_grid grid_first grid_last g
    by (intro exI [of _ s] exI [of _ "linspace 0 1 151"] conjI) assumption+
qed

text \<open>The configuration of the sweep under a library that never raises.\<close>

theorem sweep_configuration_witness:
  "first_raise (quiet :: unit library) [] notebook_effects = None \<and>
   (\<exists>s grid.
      run_notebook (quiet :: unit library) = Inr s \<and>
      sweep s = Some configured_sweep \<and>
      paramvals_by_name configured_sweep = [(flux_name, grid)] \<and>
      flux_name = [934, 101, 120, 116, 47, 934, 48] \<and>
      param_vals s = Some grid \<and>
      length grid = 151 \<and> grid ! 0 = Finite 0 \<and> grid ! 150 = Finite 1 \<and>
      (\<forall>i<150. \<exists>a b. grid ! i = Finite a \<and> grid ! (i + 1) = Finite b \<and>
         b - a \<noteq> 1 / 150 \<and> \<bar>b - a - 1 / 150\<bar> \<le> 1 / 2 ^ 50) \<and>
      update_hilbertspace_fn s = Some Update_hilbertspace \<and>
      sweep_update_hilbertspace configured_sweep = Update_hilbertspace \<and>
      evals_count configured_sweep = 15)"
  using quiet_never_raises sweep_configuration [OF quiet_never_raises]
  by (rule conjI)

text \<open>
  C7, as stated: every externally visible effect of the notebook is a call into the
  interface of the external library. It fails at \<^verbatim>\<open>print(hilbertspace)\<close> in cell 4: a
  call of a Python builtin that writes to standard output.
\<close>

theorem print_is_no_library_call_counterexample:
  "Print_call \<lparr>origin = Subsystem_list [Tmon1, Tmon2, Resonator], interaction_list = []\<rparr>
     \<in> set (effects_of (run_notebook (quiet :: unit library))) \<and>
   kind_of (Print_call \<lparr>origin = Subsystem_list [Tmon1, Tmon2, Resonator],
                        interaction_list = []\<rparr>) \<noteq> Library_call"
  by (simp add: effects_of_quiet_run print_in_notebook)

text \<open>
  C7, amended. The notebook defines no file format, wire protocol or command line: it
  imports \<^verbatim>\<open>numpy\<close> and \<^verbatim>\<open>scqubits\<close> and nothing else, and every other effect of a
  run is a call into the interface of those two libraries, except one call of the builtin
  \<^verbatim>\<open>print\<close>, which writes the description of the \<^verbatim>\<open>HilbertSpace\<close> to standard
  output.
\<close>

theorem effects_by_kind:
  assumes "first_raise L [] notebook_effects = None"
  shows "\<exists>s. run_notebook L = Inr s \<and>
           filter (\<lambda>c. kind_of c = Module_import) (effects s) =
             [Import ''numpy'', Import ''scqubits''] \<and>
           filter (\<lambda>c. kind_of c = Builtin_output) (effects s) =
             [Print_call \<lparr>origin = Subsystem_list [Tmon1, Tmon2, Resonator],
                          interaction_list = []\<rparr>] \<and>
           filter (\<lambda>c. kind_of c = Library_call) (effects s) =
             [Transmon_call 40.0 0.2 0.3 40 4,
              Transmon_call 15.0 0.15 0.0 30 4,
              Oscillator_call 4.5 4,
              HilbertSpace_create_call,
              HilbertSpace_call [Tmon1, Tmon2, Resonator],
              N_operator_call Tmon1,
              Creation_operator_call Resonator,
              Annihilation_operator_call Resonator,
              Operator_add_call (Creation_operator Resonator) (Annihilation_operator Resonator),
              Add_interaction_call (Subsystem_list [Tmon1, Tmon2, Resonator]) first_interaction,
              Add_interaction_call (Subsystem_list [Tmon1, Tmon2, Resonator]) second_interaction,
              Linspace_call 0.0 1.0 151,
              ParameterSweep_call configured_sweep,
              Explorer_call configured_sweep]"
proof -
  from completed_run [OF assms] obtain s
    where r: "run_notebook L = Inr s" and e: "effects s = notebook_effects"
    by blast
  show ?thesis
    using r imports_of_notebook builtin_calls_of_notebook library_calls_of_notebook
    unfolding e [symmetric]
    by (intro exI [of _ s]) simp
qed

text \<open>The effects by kind under a library that never raises.\<close>

theorem effects_by_kind_witness:
  "first_raise (quiet :: unit library) [] notebook_effects = None \<and>
   (\<exists>s. run_notebook (quiet :: unit library) = Inr s \<and>
      filter (\<lambda>c. kind_of c = Module_import) (effects s) =
        [Import ''numpy'', Import ''scqubits''] \<and>
      filter (\<lambda>c. kind_of c = Builtin_output) (effects s) =
        [Print_call \<lparr>origin = Subsystem_list [Tmon1, Tmon2, Resonator],
                     interaction_list = []\<rparr>] \<and>
      filter (\<lambda>c. kind_of c = Library_call) (effects s) =
        [Transmon_call 40.0 0.2 0.3 40 4,
         Transmon_call 15.0 0.15 0.0 30 4,
         Oscillator_call 4.5 4,
         HilbertSpace_create_call,
         HilbertSpace_call [Tmon1, Tmon2, Resonator],
         N_operator_call Tmon1,
         Creation_operator_call Resonator,
         Annihilation_operator_call Resonator,
         Operator_add_call (Creation_operator Resonator) (Annihilation_operator Resonator),
         Add_interaction_call (Subsystem_list [Tmon1, Tmon2, Resonator]) first_interaction,
         Add_interaction_call (Subsystem_list [Tmon1, Tmon2, Resonator]) second_interaction,
         Linspace_call 0.0 1.0 151,
         ParameterSweep_call configured_sweep,
         Explorer_call configured_sweep])"
  using quiet_never_raises effects_by_kind [OF quiet_never_raises]
  by (rule conjI)

end
